theory Spec2Isabelle
  imports Main "HOL-Library.AList" "HOL-Library.Multiset"
begin

section \<open>The Cloudflare DNS updater: one reconciliation pass\<close>

text \<open>
  The repository holds two versions of the same Deno program: \<^verbatim>\<open>src/cdu.ts\<close> and
  \<^verbatim>\<open>src/unnamed/part_000\<close>. Both create a cron job whose callback is one reconciliation
  pass. The functions \<^verbatim>\<open>getCurrentIp\<close>, \<^verbatim>\<open>getZoneId\<close> and \<^verbatim>\<open>updateDNSRecord\<close> are the same
  text in both files; \<^verbatim>\<open>getRecordIds\<close> and the callback differ. The callback of
  \<^verbatim>\<open>part_000\<close> is \<open>main_job\<close> below, the one of \<^verbatim>\<open>cdu.ts\<close> is \<open>cdu_main_job\<close>, and
  \<^verbatim>\<open>getRecordIds\<close> of \<^verbatim>\<open>cdu.ts\<close> is \<open>cdu_getRecordIds\<close>.

  Every function returns the list of requests it issued, in the order of the calls to
  \<^verbatim>\<open>fetch\<close>, next to its result. An exception is a value \<open>Inl e\<close>.
\<close>

subsection \<open>Errors\<close>

text \<open>
  One constructor per \<^verbatim>\<open>throw new Error(...)\<close> of the source, and three for the errors
  the runtime raises: a rejected \<^verbatim>\<open>fetch\<close> (its reason is the runtime's, the program
  does not build it), a rejected \<^verbatim>\<open>res.json()\<close>, and the \<^verbatim>\<open>TypeError\<close> of indexing
  \<^verbatim>\<open>undefined\<close>.
\<close>

datatype error =
    FetchError string
  | JsonError
  | TypeError
  | FailedToFindZone string
  | ZoneDoesntExist string
  | FailedToFindRecord string
  | RecordDoesntExist string
  | FailedToUpdate string

fun message :: "error \<Rightarrow> string" where
  "message (FetchError reason) = reason"
| "message JsonError = ''Unexpected token''"
| "message TypeError = ''Cannot read properties of undefined''"
| "message (FailedToFindZone zoneName) = ''failed to find zone '' @ zoneName"
| "message (ZoneDoesntExist zone) = zone @ '' doesn't exist''"
| "message (FailedToFindRecord recordName) = ''failed to find record '' @ recordName"
| "message (RecordDoesntExist recordName) = recordName @ '' doesn't exist''"
| "message (FailedToUpdate recordId) = ''failed to update DNS record '' @ recordId"

subsection \<open>Requests and responses\<close>

text \<open>
  A request is identified by its method and URL (and the body of a PATCH). The three
  headers are the same on every Cloudflare request and are left out.
  \<open>GetZone name\<close> is \<^verbatim>\<open>GET /zones?name=\<close>, \<open>GetRecord zoneId name\<close> is
  \<^verbatim>\<open>GET /zones/zoneId/dns_records?name=&type=A\<close>, and \<open>PatchRecord zoneId recordId content\<close>
  is \<^verbatim>\<open>PATCH /zones/zoneId/dns_records/recordId\<close> with body
  \<^verbatim>\<open>{type: "A", content}\<close>.
\<close>

datatype request =
    FetchIp
  | GetZone string
  | GetRecord string string
  | PatchRecord string string string

text \<open>
  What \<^verbatim>\<open>await res.json()\<close> yields, as far as \<^verbatim>\<open>data?.result[0]?.id\<close> looks at it:
  the body is not JSON; the body is \<^verbatim>\<open>null\<close>; the body has no \<^verbatim>\<open>result\<close>; or
  \<^verbatim>\<open>result\<close> is a list, of which each element has an \<^verbatim>\<open>id\<close> (a string) or none.
\<close>

datatype body = InvalidJson | JsonNull | NoResult | Result "string option list"

datatype response = Rejected string | NotOk | Ok body

text \<open>
  The provider answers a request with a response and with the time at which the task
  awaiting it settles. Tasks of one fan-out settle in the order of these times, and in
  the order of their creation when the times are equal. The answer is a function of the
  request: two calls of \<^verbatim>\<open>fetch\<close> with the same method, URL and body within one pass
  get the same response and settle time, whatever their order. A provider that answers
  the second of two equal requests differently is outside this model.
\<close>

type_synonym provider = "request \<Rightarrow> nat \<times> response"

datatype ip_response = IpRejected string | IpText string

record env =
  ipify :: ip_response
  cloudflare :: provider

text \<open>\<^verbatim>\<open>data?.result[0]?.id\<close> after \<^verbatim>\<open>const data = await res.json()\<close>; \<open>None\<close> is
  \<^verbatim>\<open>undefined\<close>.\<close>

fun first_id :: "body \<Rightarrow> error + string option" where
  "first_id InvalidJson = Inl JsonError"
| "first_id JsonNull = Inr None"
| "first_id NoResult = Inl TypeError"
| "first_id (Result []) = Inr None"
| "first_id (Result (item # _)) = Inr item"

text \<open>\<^verbatim>\<open>!x\<close> for a value that is a string or \<^verbatim>\<open>undefined\<close>.\<close>

fun falsy :: "string option \<Rightarrow> bool" where
  "falsy None = True"
| "falsy (Some s) = (s = [])"

text \<open>A string or \<^verbatim>\<open>undefined\<close> inside a template literal.\<close>

fun to_str :: "string option \<Rightarrow> string" where
  "to_str None = ''undefined''"
| "to_str (Some s) = s"

subsection \<open>Promises\<close>

text \<open>
  A task is an async function already called: its request is issued, and it settles at
  some time with an error or a value. \<^verbatim>\<open>Promise.all\<close> rejects with the reason of the
  task that rejects first in time, and otherwise fulfils with the values in the order
  of the array.
\<close>

type_synonym 'a task = "nat \<times> (error + 'a)"

definition settle_order :: "'a task list \<Rightarrow> (error + 'a) list" where
  "settle_order ts = map snd (sort_key fst ts)"

fun first_rejection :: "(error + 'a) list \<Rightarrow> error option" where
  "first_rejection [] = None"
| "first_rejection (Inl e # _) = Some e"
| "first_rejection (Inr _ # ss) = first_rejection ss"

fun fulfilled :: "(error + 'a) list \<Rightarrow> 'a list" where
  "fulfilled [] = []"
| "fulfilled (Inl _ # ss) = fulfilled ss"
| "fulfilled (Inr v # ss) = v # fulfilled ss"

definition promise_all :: "'a task list \<Rightarrow> error + 'a list" where
  "promise_all ts =
     (case first_rejection (settle_order ts) of
        Some e \<Rightarrow> Inl e
      | None \<Rightarrow> Inr (fulfilled (map snd ts)))"

subsection \<open>Plain objects\<close>

text \<open>
  \<^verbatim>\<open>idMap: Record<string, string>\<close> is a list of keys and values in the order in which
  the keys were first assigned, which is the order of \<^verbatim>\<open>Object.values\<close>;
  \<open>AList.update\<close> is the assignment \<^verbatim>\<open>idMap[k] = v\<close>. A value may be \<^verbatim>\<open>undefined\<close>.
  This is what a JavaScript object does for the keys this program stores, the host
  names of DNS records; it is not what it does for the key \<^verbatim>\<open>__proto__\<close> or for a key
  that is the decimal form of an array index. \<^verbatim>\<open>Object.values\<close> lists the values of
  array-index keys first, in numeric order: for such a record name the update requests
  are the same and only their order differs from the one given here.
\<close>

type_synonym obj = "(string \<times> string option) list"

definition obj_get :: "obj \<Rightarrow> string \<Rightarrow> string option" where
  "obj_get m k = (case map_of m k of None \<Rightarrow> None | Some v \<Rightarrow> v)"

definition object_values :: "obj \<Rightarrow> string option list" where
  "object_values m = map snd m"

subsection \<open>The functions of the source\<close>

definition getCurrentIp :: "env \<Rightarrow> request list \<times> (error + string)" where
  "getCurrentIp e =
     ([FetchIp],
      case ipify e of
        IpRejected reason \<Rightarrow> Inl (FetchError reason)
      | IpText t \<Rightarrow> Inr t)"

definition getZoneId :: "provider \<Rightarrow> string \<Rightarrow> request list \<times> (error + string option)" where
  "getZoneId cf zoneName =
     ([GetZone zoneName],
      case snd (cf (GetZone zoneName)) of
        Rejected reason \<Rightarrow> Inl (FetchError reason)
      | NotOk \<Rightarrow> Inl (FailedToFindZone zoneName)
      | Ok b \<Rightarrow> first_id b)"

text \<open>The async function \<^verbatim>\<open>p\<close> inside the loop of \<^verbatim>\<open>getRecordIds\<close>, up to what it does
  with the id: \<^verbatim>\<open>cdu.ts\<close> returns it, \<^verbatim>\<open>part_000\<close> stores it under the record's name.\<close>

definition lookup_task :: "provider \<Rightarrow> string \<Rightarrow> string \<Rightarrow> string option task" where
  "lookup_task cf zoneId recordName =
     (fst (cf (GetRecord zoneId recordName)),
      case snd (cf (GetRecord zoneId recordName)) of
        Rejected reason \<Rightarrow> Inl (FetchError reason)
      | NotOk \<Rightarrow> Inl (FailedToFindRecord recordName)
      | Ok b \<Rightarrow> first_id b)"

definition store_task :: "string \<Rightarrow> string option task \<Rightarrow> (string \<times> string option) task" where
  "store_task recordName t = (fst t, map_sum id (Pair recordName) (snd t))"

text \<open>The assignments \<^verbatim>\<open>idMap[recordName] = ...\<close>, made by the tasks that do not throw,
  in the order in which the tasks settle.\<close>

fun assign_all :: "(error + string \<times> string option) list \<Rightarrow> obj \<Rightarrow> obj" where
  "assign_all [] m = m"
| "assign_all (Inl _ # ss) m = assign_all ss m"
| "assign_all (Inr (k, v) # ss) m = assign_all ss (AList.update k v m)"

definition getRecordIds :: "provider \<Rightarrow> string \<Rightarrow> string list \<Rightarrow> request list \<times> (error + obj)" where
  "getRecordIds cf zoneId recordNames =
     (let promises = map (\<lambda>recordName. store_task recordName (lookup_task cf zoneId recordName))
                         recordNames
      in (map (GetRecord zoneId) recordNames,
          case promise_all promises of
            Inl e \<Rightarrow> Inl e
          | Inr _ \<Rightarrow> Inr (assign_all (settle_order promises) [])))"

definition cdu_getRecordIds ::
  "provider \<Rightarrow> string \<Rightarrow> string list \<Rightarrow> request list \<times> (error + string option list)" where
  "cdu_getRecordIds cf zoneId recordNames =
     (map (GetRecord zoneId) recordNames,
      promise_all (map (lookup_task cf zoneId) recordNames))"

definition update_task :: "provider \<Rightarrow> string \<Rightarrow> string \<Rightarrow> string \<Rightarrow> unit task" where
  "update_task cf zoneId newIpAddress recordId =
     (fst (cf (PatchRecord zoneId recordId newIpAddress)),
      case snd (cf (PatchRecord zoneId recordId newIpAddress)) of
        Rejected reason \<Rightarrow> Inl (FetchError reason)
      | NotOk \<Rightarrow> Inl (FailedToUpdate recordId)
      | Ok b \<Rightarrow> (if b = InvalidJson then Inl JsonError else Inr ()))"

definition updateDNSRecord ::
  "provider \<Rightarrow> string \<Rightarrow> string list \<Rightarrow> string \<Rightarrow> request list \<times> (error + unit list)" where
  "updateDNSRecord cf zoneId recordIds newIpAddress =
     (map (\<lambda>recordId. PatchRecord zoneId recordId newIpAddress) recordIds,
      promise_all (map (update_task cf zoneId newIpAddress) recordIds))"

text \<open>\<^verbatim>\<open>records.split(",")\<close>.\<close>

fun split_comma :: "string \<Rightarrow> string list" where
  "split_comma [] = [[]]"
| "split_comma (c # cs) =
     (if c = CHR '','' then [] # split_comma cs
      else (case split_comma cs of
              [] \<Rightarrow> [[c]]
            | w # ws \<Rightarrow> (c # w) # ws))"

subsection \<open>The pass\<close>

record config =
  apiKey :: string
  email :: string
  records :: string
  zone :: string

datatype outcome = NoChange | Updated | Failed error

text \<open>What a pass leaves: how it ended, the entry \<^verbatim>\<open>previous-ip-address\<close> of the cache,
  and the requests it issued.\<close>

record result =
  outcome :: outcome
  cache :: "string option"
  requests :: "request list"

text \<open>The callback of the cron job in \<^verbatim>\<open>part_000\<close>.\<close>

definition main_job :: "config \<Rightarrow> env \<Rightarrow> string option \<Rightarrow> result" where
  "main_job cfg e previousIp =
     (case snd (getCurrentIp e) of
        Inl err \<Rightarrow> \<lparr>outcome = Failed err, cache = previousIp, requests = fst (getCurrentIp e)\<rparr>
      | Inr currentIp \<Rightarrow>
          if previousIp = Some currentIp then
            \<lparr>outcome = NoChange, cache = previousIp, requests = fst (getCurrentIp e)\<rparr>
          else
            let r1 = fst (getCurrentIp e) @ fst (getZoneId (cloudflare e) (zone cfg)) in
            (case snd (getZoneId (cloudflare e) (zone cfg)) of
               Inl err \<Rightarrow> \<lparr>outcome = Failed err, cache = Some currentIp, requests = r1\<rparr>
             | Inr zoneId \<Rightarrow>
                 if falsy zoneId then
                   \<lparr>outcome = Failed (ZoneDoesntExist (zone cfg)), cache = Some currentIp,
                    requests = r1\<rparr>
                 else
                   let recordNames = split_comma (records cfg);
                       looked = getRecordIds (cloudflare e) (to_str zoneId) recordNames;
                       r2 = r1 @ fst looked
                   in (case snd looked of
                         Inl err \<Rightarrow>
                           \<lparr>outcome = Failed err, cache = Some currentIp, requests = r2\<rparr>
                       | Inr recordIds \<Rightarrow>
                           (case find (\<lambda>recordName. falsy (obj_get recordIds recordName))
                                      recordNames of
                              Some recordName \<Rightarrow>
                                \<lparr>outcome = Failed (RecordDoesntExist recordName),
                                 cache = Some currentIp, requests = r2\<rparr>
                            | None \<Rightarrow>
                                let updated = updateDNSRecord (cloudflare e) (to_str zoneId)
                                                (map to_str (object_values recordIds)) currentIp
                                in \<lparr>outcome = (case snd updated of
                                                 Inl err \<Rightarrow> Failed err
                                               | Inr _ \<Rightarrow> Updated),
                                    cache = Some currentIp,
                                    requests = r2 @ fst updated\<rparr>))))"

text \<open>The callback of the cron job in \<^verbatim>\<open>cdu.ts\<close>: no check of the zone id, no check of
  the record ids, and the record ids are an array in the order of the names.\<close>

definition cdu_main_job :: "config \<Rightarrow> env \<Rightarrow> string option \<Rightarrow> result" where
  "cdu_main_job cfg e previousIp =
     (case snd (getCurrentIp e) of
        Inl err \<Rightarrow> \<lparr>outcome = Failed err, cache = previousIp, requests = fst (getCurrentIp e)\<rparr>
      | Inr currentIp \<Rightarrow>
          if previousIp = Some currentIp then
            \<lparr>outcome = NoChange, cache = previousIp, requests = fst (getCurrentIp e)\<rparr>
          else
            let r1 = fst (getCurrentIp e) @ fst (getZoneId (cloudflare e) (zone cfg)) in
            (case snd (getZoneId (cloudflare e) (zone cfg)) of
               Inl err \<Rightarrow> \<lparr>outcome = Failed err, cache = Some currentIp, requests = r1\<rparr>
             | Inr zoneId \<Rightarrow>
                 let recordNames = split_comma (records cfg);
                     looked = cdu_getRecordIds (cloudflare e) (to_str zoneId) recordNames;
                     r2 = r1 @ fst looked
                 in (case snd looked of
                       Inl err \<Rightarrow>
                         \<lparr>outcome = Failed err, cache = Some currentIp, requests = r2\<rparr>
                     | Inr recordIds \<Rightarrow>
                         let updated = updateDNSRecord (cloudflare e) (to_str zoneId)
                                         (map to_str recordIds) currentIp
                         in \<lparr>outcome = (case snd updated of
                                          Inl err \<Rightarrow> Failed err
                                        | Inr _ \<Rightarrow> Updated),
                             cache = Some currentIp,
                             requests = r2 @ fst updated\<rparr>)))"

text \<open>The requests of a pass that go to the DNS provider.\<close>

fun is_provider_request :: "request \<Rightarrow> bool" where
  "is_provider_request FetchIp = False"
| "is_provider_request _ = True"

fun is_update :: "request \<Rightarrow> bool" where
  "is_update (PatchRecord _ _ _) = True"
| "is_update _ = False"

fun is_lookup :: "request \<Rightarrow> bool" where
  "is_lookup (GetRecord _ _) = True"
| "is_lookup _ = False"

fun is_zone_lookup :: "request \<Rightarrow> bool" where
  "is_zone_lookup (GetZone _) = True"
| "is_zone_lookup _ = False"

subsection \<open>Example worlds\<close>

text \<open>A provider given by its answer to the zone lookup, its answers to the record
  lookups by record name, and its answers to the updates by record id.\<close>

definition example_provider ::
  "response \<Rightarrow> (string \<Rightarrow> nat \<times> response) \<Rightarrow> (string \<Rightarrow> nat \<times> response) \<Rightarrow> provider" where
  "example_provider zoneResponse lookups updates q =
     (case q of
        FetchIp \<Rightarrow> (0, NotOk)
      | GetZone _ \<Rightarrow> (0, zoneResponse)
      | GetRecord _ recordName \<Rightarrow> lookups recordName
      | PatchRecord _ recordId _ \<Rightarrow> updates recordId)"

definition one_zone :: response where
  "one_zone = Ok (Result [Some ''z1''])"

text \<open>Both records exist; the lookup of \<^verbatim>\<open>a.example.com\<close> settles after the other.\<close>

definition both_found :: "string \<Rightarrow> nat \<times> response" where
  "both_found recordName =
     (if recordName = ''a.example.com'' then (5, Ok (Result [Some ''r1'']))
      else (1, Ok (Result [Some ''r2''])))"

text \<open>The provider has only \<^verbatim>\<open>a.example.com\<close>.\<close>

definition only_a_found :: "string \<Rightarrow> nat \<times> response" where
  "only_a_found recordName =
     (if recordName = ''a.example.com'' then (5, Ok (Result [Some ''r1'']))
      else (1, Ok (Result [])))"

text \<open>The connection of the lookup of \<^verbatim>\<open>a.example.com\<close> breaks.\<close>

definition a_unreachable :: "string \<Rightarrow> nat \<times> response" where
  "a_unreachable recordName =
     (if recordName = ''a.example.com'' then (5, Rejected ''connection reset'')
      else (1, Ok (Result [Some ''r2''])))"

text \<open>The lookup of \<^verbatim>\<open>a.example.com\<close> is answered with an error status.\<close>

definition a_refused :: "string \<Rightarrow> nat \<times> response" where
  "a_refused recordName =
     (if recordName = ''a.example.com'' then (5, NotOk)
      else (1, Ok (Result [Some ''r2''])))"

text \<open>The provider updates the records it has and refuses any other record id.\<close>

definition all_updated :: "string \<Rightarrow> nat \<times> response" where
  "all_updated recordId =
     (if recordId = ''r1'' \<or> recordId = ''r2'' then (0, Ok (Result [])) else (0, NotOk))"

text \<open>The update of \<^verbatim>\<open>r1\<close> gets the given response, after the update of \<^verbatim>\<open>r2\<close>
  has succeeded.\<close>

definition r1_answered :: "response \<Rightarrow> string \<Rightarrow> nat \<times> response" where
  "r1_answered r1Response recordId =
     (if recordId = ''r1'' then (3, r1Response) else (0, Ok (Result [])))"

text \<open>A provider that knows the zone id \<^verbatim>\<open>z1\<close> only: a record lookup or an update under
  another zone id is answered with an error status.\<close>

definition known_zone_only :: "provider \<Rightarrow> provider" where
  "known_zone_only cf q =
     (case q of
        GetRecord zoneId _ \<Rightarrow> (if zoneId = ''z1'' then cf q else (0, NotOk))
      | PatchRecord zoneId _ _ \<Rightarrow> (if zoneId = ''z1'' then cf q else (0, NotOk))
      | _ \<Rightarrow> cf q)"

definition example_config :: config where
  "example_config =
     \<lparr>apiKey = ''key'', email = ''me@example.com'',
      records = ''a.example.com,b.example.com'', zone = ''example.com''\<rparr>"

definition twice_config :: config where
  "twice_config =
     \<lparr>apiKey = ''key'', email = ''me@example.com'',
      records = ''a.example.com,a.example.com'', zone = ''example.com''\<rparr>"

definition reversed_config :: config where
  "reversed_config =
     \<lparr>apiKey = ''key'', email = ''me@example.com'',
      records = ''b.example.com,a.example.com'', zone = ''example.com''\<rparr>"

definition example_env :: "response \<Rightarrow> (string \<Rightarrow> nat \<times> response) \<Rightarrow> (string \<Rightarrow> nat \<times> response) \<Rightarrow> env" where
  "example_env zoneResponse lookups updates =
     \<lparr>ipify = IpText ''203.0.113.7'',
      cloudflare = example_provider zoneResponse lookups updates\<rparr>"

section \<open>Properties\<close>

subsection \<open>Promises\<close>

lemma first_rejection_None_iff:
  "first_rejection ss = None \<longleftrightarrow> (\<forall>s \<in> set ss. \<exists>v. s = Inr v)"
  by (induction ss rule: first_rejection.induct) auto

lemma first_rejection_SomeD:
  "first_rejection ss = Some e \<Longrightarrow> Inl e \<in> set ss"
  by (induction ss rule: first_rejection.induct) auto

lemma set_settle_order: "set (settle_order ts) = snd ` set ts"
  by (simp add: settle_order_def)

lemma promise_all_Inr_iff:
  "(\<exists>vs. promise_all ts = Inr vs) \<longleftrightarrow> (\<forall>t \<in> set ts. \<exists>v. snd t = Inr v)"
proof -
  have "first_rejection (settle_order ts) = None \<longleftrightarrow> (\<forall>t \<in> set ts. \<exists>v. snd t = Inr v)"
    by (simp add: first_rejection_None_iff set_settle_order)
  then show ?thesis
    by (cases "first_rejection (settle_order ts)") (simp_all add: promise_all_def)
qed

lemma promise_all_InrD:
  "promise_all ts = Inr vs \<Longrightarrow> vs = fulfilled (map snd ts)"
  by (auto simp: promise_all_def split: option.splits)

lemma promise_all_InlD:
  "promise_all ts = Inl e \<Longrightarrow> \<exists>t \<in> set ts. snd t = Inl e"
proof -
  assume "promise_all ts = Inl e"
  then have "first_rejection (settle_order ts) = Some e"
    by (simp add: promise_all_def split: option.splits)
  then have "Inl e \<in> snd ` set ts"
    using first_rejection_SomeD set_settle_order by metis
  then show ?thesis by force
qed

lemma fulfilled_all_Inr:
  "\<forall>s \<in> set ss. \<exists>v. s = Inr v \<Longrightarrow> map Inr (fulfilled ss) = ss"
  by (induction ss rule: fulfilled.induct) auto

lemma promise_all_only_rejection:
  assumes "t \<in> set ts" "snd t = Inl e"
    and "\<forall>u \<in> set ts. \<forall>e'. snd u = Inl e' \<longrightarrow> e' = e"
  shows "promise_all ts = Inl e"
proof (cases "promise_all ts")
  case (Inl e')
  with assms(3) promise_all_InlD[OF Inl] show ?thesis by auto
next
  case (Inr vs)
  then have "\<forall>t \<in> set ts. \<exists>v. snd t = Inr v" using promise_all_Inr_iff by blast
  with assms(1,2) show ?thesis by auto
qed

subsection \<open>Record resolution\<close>

lemma set_update_subset: "set (AList.update k v m) \<subseteq> insert (k, v) (set m)"
  by (induction m) auto

lemma assign_all_keys:
  "fst ` set (assign_all ss m) = fst ` set m \<union> {k. \<exists>v. Inr (k, v) \<in> set ss}"
proof (induction ss m rule: assign_all.induct)
  case (3 k v ss m)
  then show ?case by (auto simp: dom_update)
qed auto

lemma assign_all_distinct:
  "distinct (map fst m) \<Longrightarrow> distinct (map fst (assign_all ss m))"
  by (induction ss m rule: assign_all.induct) (simp_all add: distinct_update)

lemma assign_all_values:
  assumes "\<forall>k v. Inr (k, v) \<in> set ss \<longrightarrow> P k v" "\<forall>(k, v) \<in> set m. P k v"
  shows "\<forall>(k, v) \<in> set (assign_all ss m). P k v"
  using assms
proof (induction ss m rule: assign_all.induct)
  case (3 k v ss m)
  have "\<forall>(k', v') \<in> set (AList.update k v m). P k' v'"
    using set_update_subset[of k v m] 3(2,3) by auto
  with 3 show ?case by simp
qed auto

lemma snd_store_task:
  "snd (store_task n t) = (case snd t of Inl e \<Rightarrow> Inl e | Inr v \<Rightarrow> Inr (n, v))"
  by (cases "snd t") (simp_all add: store_task_def)

lemma getRecordIds_requests [simp]:
  "fst (getRecordIds cf z names) = map (GetRecord z) names"
  by (simp add: getRecordIds_def Let_def)

lemma getRecordIds_Inr_iff:
  "(\<exists>m. snd (getRecordIds cf z names) = Inr m) \<longleftrightarrow>
   (\<forall>n \<in> set names. \<exists>v. snd (lookup_task cf z n) = Inr v)"
proof -
  let ?ts = "map (\<lambda>n. store_task n (lookup_task cf z n)) names"
  have "(\<exists>m. snd (getRecordIds cf z names) = Inr m) \<longleftrightarrow> (\<exists>vs. promise_all ?ts = Inr vs)"
    by (simp add: getRecordIds_def Let_def split: sum.splits)
  also have "\<dots> \<longleftrightarrow> (\<forall>t \<in> set ?ts. \<exists>v. snd t = Inr v)"
    by (rule promise_all_Inr_iff)
  also have "\<dots> \<longleftrightarrow> (\<forall>n \<in> set names. \<exists>v. snd (lookup_task cf z n) = Inr v)"
  proof -
    have "(\<exists>v. snd (store_task n (lookup_task cf z n)) = Inr v) \<longleftrightarrow>
          (\<exists>v. snd (lookup_task cf z n) = Inr v)" for n
      by (cases "snd (lookup_task cf z n)") (simp_all add: snd_store_task)
    then show ?thesis by simp
  qed
  finally show ?thesis .
qed

lemma getRecordIds_InrD:
  assumes "snd (getRecordIds cf z names) = Inr m"
  shows "distinct (map fst m)"
    and "fst ` set m = set names"
    and "\<forall>(k, v) \<in> set m. snd (lookup_task cf z k) = Inr v"
proof -
  let ?ts = "map (\<lambda>n. store_task n (lookup_task cf z n)) names"
  from assms have m: "m = assign_all (settle_order ?ts) []"
    by (simp add: getRecordIds_def Let_def split: sum.splits)
  from assms have all: "\<forall>n \<in> set names. \<exists>v. snd (lookup_task cf z n) = Inr v"
    using getRecordIds_Inr_iff by blast
  show "distinct (map fst m)"
    unfolding m by (rule assign_all_distinct) simp
  have "{k. \<exists>v. Inr (k, v) \<in> snd ` set ?ts} = set names"
  proof (intro set_eqI iffI)
    fix k assume "k \<in> {k. \<exists>v. Inr (k, v) \<in> snd ` set ?ts}"
    then show "k \<in> set names"
      by (auto simp: snd_store_task split: sum.splits)
  next
    fix k assume k: "k \<in> set names"
    with all obtain v where "snd (lookup_task cf z k) = Inr v" by blast
    then have "snd (store_task k (lookup_task cf z k)) = Inr (k, v)"
      by (simp add: snd_store_task)
    with k show "k \<in> {k. \<exists>v. Inr (k, v) \<in> snd ` set ?ts}"
      by force
  qed
  then show "fst ` set m = set names"
    unfolding m by (simp add: assign_all_keys set_settle_order)
  have "\<forall>k v. Inr (k, v) \<in> set (settle_order ?ts) \<longrightarrow> snd (lookup_task cf z k) = Inr v"
    by (auto simp: set_settle_order snd_store_task split: sum.splits)
  then show "\<forall>(k, v) \<in> set m. snd (lookup_task cf z k) = Inr v"
    unfolding m by (rule assign_all_values) simp
qed

lemma getRecordIds_length:
  assumes "snd (getRecordIds cf z names) = Inr m"
  shows "length m = card (set names)"
proof -
  have "length m = length (map fst m)" by simp
  also have "\<dots> = card (set (map fst m))"
    using getRecordIds_InrD(1)[OF assms] by (simp only: distinct_card)
  also have "\<dots> = card (set names)"
    using getRecordIds_InrD(2)[OF assms] by simp
  finally show ?thesis .
qed

lemma getRecordIds_obj_get:
  assumes "snd (getRecordIds cf z names) = Inr m" "n \<in> set names"
  shows "snd (lookup_task cf z n) = Inr (obj_get m n)"
proof -
  from getRecordIds_InrD(2)[OF assms(1)] assms(2) obtain v where in_m: "(n, v) \<in> set m"
    by force
  with getRecordIds_InrD(1)[OF assms(1)] have "map_of m n = Some v" by simp
  then have "obj_get m n = v" by (simp add: obj_get_def)
  with in_m getRecordIds_InrD(3)[OF assms(1)] show ?thesis by auto
qed

subsection \<open>The steps of a pass\<close>

lemma getCurrentIp_simps [simp]:
  "fst (getCurrentIp e) = [FetchIp]"
  "ipify e = IpText ip \<Longrightarrow> snd (getCurrentIp e) = Inr ip"
  "ipify e = IpRejected reason \<Longrightarrow> snd (getCurrentIp e) = Inl (FetchError reason)"
  by (simp_all add: getCurrentIp_def)

lemma getZoneId_requests [simp]: "fst (getZoneId cf zoneName) = [GetZone zoneName]"
  by (simp add: getZoneId_def)

lemma updateDNSRecord_requests [simp]:
  "fst (updateDNSRecord cf z ids ip) = map (\<lambda>i. PatchRecord z i ip) ids"
  by (simp add: updateDNSRecord_def)

lemma cdu_getRecordIds_requests [simp]:
  "fst (cdu_getRecordIds cf z names) = map (GetRecord z) names"
  by (simp add: cdu_getRecordIds_def)

lemma main_job_ip_rejected:
  "ipify e = IpRejected reason \<Longrightarrow>
   main_job cfg e prev = \<lparr>outcome = Failed (FetchError reason), cache = prev, requests = [FetchIp]\<rparr>"
  by (simp add: main_job_def)

lemma main_job_no_change:
  "ipify e = IpText ip \<Longrightarrow>
   main_job cfg e (Some ip) = \<lparr>outcome = NoChange, cache = Some ip, requests = [FetchIp]\<rparr>"
  by (simp add: main_job_def)

lemma main_job_zone_error:
  "ipify e = IpText ip \<Longrightarrow> prev \<noteq> Some ip \<Longrightarrow>
   snd (getZoneId (cloudflare e) (zone cfg)) = Inl err \<Longrightarrow>
   main_job cfg e prev =
     \<lparr>outcome = Failed err, cache = Some ip, requests = [FetchIp, GetZone (zone cfg)]\<rparr>"
  by (simp add: main_job_def)

lemma main_job_zone_missing:
  "ipify e = IpText ip \<Longrightarrow> prev \<noteq> Some ip \<Longrightarrow>
   snd (getZoneId (cloudflare e) (zone cfg)) = Inr zoneId \<Longrightarrow> falsy zoneId \<Longrightarrow>
   main_job cfg e prev =
     \<lparr>outcome = Failed (ZoneDoesntExist (zone cfg)), cache = Some ip,
      requests = [FetchIp, GetZone (zone cfg)]\<rparr>"
  by (simp add: main_job_def)

lemma main_job_lookup_error:
  "ipify e = IpText ip \<Longrightarrow> prev \<noteq> Some ip \<Longrightarrow>
   snd (getZoneId (cloudflare e) (zone cfg)) = Inr zoneId \<Longrightarrow> \<not> falsy zoneId \<Longrightarrow>
   snd (getRecordIds (cloudflare e) (to_str zoneId) (split_comma (records cfg))) = Inl err \<Longrightarrow>
   main_job cfg e prev =
     \<lparr>outcome = Failed err, cache = Some ip,
      requests = [FetchIp, GetZone (zone cfg)] @
                 map (GetRecord (to_str zoneId)) (split_comma (records cfg))\<rparr>"
  by (simp add: main_job_def Let_def)

lemma main_job_record_missing:
  "ipify e = IpText ip \<Longrightarrow> prev \<noteq> Some ip \<Longrightarrow>
   snd (getZoneId (cloudflare e) (zone cfg)) = Inr zoneId \<Longrightarrow> \<not> falsy zoneId \<Longrightarrow>
   snd (getRecordIds (cloudflare e) (to_str zoneId) (split_comma (records cfg))) = Inr m \<Longrightarrow>
   find (\<lambda>n. falsy (obj_get m n)) (split_comma (records cfg)) = Some missing \<Longrightarrow>
   main_job cfg e prev =
     \<lparr>outcome = Failed (RecordDoesntExist missing), cache = Some ip,
      requests = [FetchIp, GetZone (zone cfg)] @
                 map (GetRecord (to_str zoneId)) (split_comma (records cfg))\<rparr>"
  by (simp add: main_job_def Let_def)

lemma main_job_update_step:
  "ipify e = IpText ip \<Longrightarrow> prev \<noteq> Some ip \<Longrightarrow>
   snd (getZoneId (cloudflare e) (zone cfg)) = Inr zoneId \<Longrightarrow> \<not> falsy zoneId \<Longrightarrow>
   snd (getRecordIds (cloudflare e) (to_str zoneId) (split_comma (records cfg))) = Inr m \<Longrightarrow>
   find (\<lambda>n. falsy (obj_get m n)) (split_comma (records cfg)) = None \<Longrightarrow>
   main_job cfg e prev =
     \<lparr>outcome = (case snd (updateDNSRecord (cloudflare e) (to_str zoneId)
                              (map to_str (object_values m)) ip) of
                   Inl err \<Rightarrow> Failed err | Inr _ \<Rightarrow> Updated),
      cache = Some ip,
      requests = [FetchIp, GetZone (zone cfg)] @
                 map (GetRecord (to_str zoneId)) (split_comma (records cfg)) @
                 map (\<lambda>i. PatchRecord (to_str zoneId) i ip) (map to_str (object_values m))\<rparr>"
  by (simp add: main_job_def Let_def)

lemma filter_is_update_lookups [simp]: "filter is_update (map (GetRecord z) names) = []"
  by (induction names) simp_all

lemma filter_is_update_patches [simp]:
  "filter is_update (map (\<lambda>i. PatchRecord z i ip) ids) = map (\<lambda>i. PatchRecord z i ip) ids"
  by (induction ids) simp_all

text \<open>A pass that issues an update has gone through every step before.\<close>

lemma main_job_updates_nonempty:
  assumes "filter is_update (requests (main_job cfg e prev)) \<noteq> []"
  shows "\<exists>ip zoneId m.
           ipify e = IpText ip \<and> prev \<noteq> Some ip \<and>
           snd (getZoneId (cloudflare e) (zone cfg)) = Inr zoneId \<and> \<not> falsy zoneId \<and>
           snd (getRecordIds (cloudflare e) (to_str zoneId) (split_comma (records cfg))) = Inr m \<and>
           find (\<lambda>n. falsy (obj_get m n)) (split_comma (records cfg)) = None"
proof (cases "ipify e")
  case (IpRejected reason)
  with assms show ?thesis by (simp add: main_job_ip_rejected)
next
  case (IpText ip)
  show ?thesis
  proof (cases "prev = Some ip")
    case True
    with assms IpText show ?thesis by (simp add: main_job_no_change)
  next
    case changed: False
    show ?thesis
    proof (cases "snd (getZoneId (cloudflare e) (zone cfg))")
      case (Inl err)
      with assms IpText changed show ?thesis by (simp add: main_job_zone_error)
    next
      case (Inr zoneId)
      show ?thesis
      proof (cases "falsy zoneId")
        case True
        with assms IpText changed Inr show ?thesis by (simp add: main_job_zone_missing)
      next
        case truthy: False
        show ?thesis
        proof (cases "snd (getRecordIds (cloudflare e) (to_str zoneId) (split_comma (records cfg)))")
          case (Inl err)
          with assms IpText changed Inr truthy show ?thesis
            by (simp add: main_job_lookup_error)
        next
          case m: (Inr m)
          show ?thesis
          proof (cases "find (\<lambda>n. falsy (obj_get m n)) (split_comma (records cfg))")
            case None
            with IpText changed Inr truthy m show ?thesis by blast
          next
            case (Some missing)
            with assms IpText changed Inr truthy m show ?thesis
              by (simp add: main_job_record_missing)
          qed
        qed
      qed
    qed
  qed
qed

lemma cdu_main_job_ip_rejected:
  "ipify e = IpRejected reason \<Longrightarrow>
   cdu_main_job cfg e prev =
     \<lparr>outcome = Failed (FetchError reason), cache = prev, requests = [FetchIp]\<rparr>"
  by (simp add: cdu_main_job_def)

lemma cdu_main_job_no_change:
  "ipify e = IpText ip \<Longrightarrow>
   cdu_main_job cfg e (Some ip) = \<lparr>outcome = NoChange, cache = Some ip, requests = [FetchIp]\<rparr>"
  by (simp add: cdu_main_job_def)

lemma cdu_main_job_zone_error:
  "ipify e = IpText ip \<Longrightarrow> prev \<noteq> Some ip \<Longrightarrow>
   snd (getZoneId (cloudflare e) (zone cfg)) = Inl err \<Longrightarrow>
   cdu_main_job cfg e prev =
     \<lparr>outcome = Failed err, cache = Some ip, requests = [FetchIp, GetZone (zone cfg)]\<rparr>"
  by (simp add: cdu_main_job_def)

lemma cdu_main_job_lookup_error:
  "ipify e = IpText ip \<Longrightarrow> prev \<noteq> Some ip \<Longrightarrow>
   snd (getZoneId (cloudflare e) (zone cfg)) = Inr zoneId \<Longrightarrow>
   snd (cdu_getRecordIds (cloudflare e) (to_str zoneId) (split_comma (records cfg))) = Inl err \<Longrightarrow>
   cdu_main_job cfg e prev =
     \<lparr>outcome = Failed err, cache = Some ip,
      requests = [FetchIp, GetZone (zone cfg)] @
                 map (GetRecord (to_str zoneId)) (split_comma (records cfg))\<rparr>"
  by (simp add: cdu_main_job_def Let_def)

lemma cdu_main_job_update_step:
  "ipify e = IpText ip \<Longrightarrow> prev \<noteq> Some ip \<Longrightarrow>
   snd (getZoneId (cloudflare e) (zone cfg)) = Inr zoneId \<Longrightarrow>
   snd (cdu_getRecordIds (cloudflare e) (to_str zoneId) (split_comma (records cfg))) = Inr ids \<Longrightarrow>
   cdu_main_job cfg e prev =
     \<lparr>outcome = (case snd (updateDNSRecord (cloudflare e) (to_str zoneId)
                              (map to_str ids) ip) of
                   Inl err \<Rightarrow> Failed err | Inr _ \<Rightarrow> Updated),
      cache = Some ip,
      requests = [FetchIp, GetZone (zone cfg)] @
                 map (GetRecord (to_str zoneId)) (split_comma (records cfg)) @
                 map (\<lambda>i. PatchRecord (to_str zoneId) i ip) (map to_str ids)\<rparr>"
  by (simp add: cdu_main_job_def Let_def)

lemma main_job_cache:
  "ipify e = IpText ip \<Longrightarrow> cache (main_job cfg e prev) = Some ip"
  by (simp add: main_job_def Let_def split: sum.splits option.splits)

lemma cdu_main_job_cache:
  "ipify e = IpText ip \<Longrightarrow> cache (cdu_main_job cfg e prev) = Some ip"
  by (simp add: cdu_main_job_def Let_def split: sum.splits option.splits)

lemma filter_is_zone_lookup_lookups [simp]:
  "filter is_zone_lookup (map (GetRecord z) names) = []"
  by (induction names) simp_all

lemma filter_is_zone_lookup_patches [simp]:
  "filter is_zone_lookup (map (\<lambda>i. PatchRecord z i ip) ids) = []"
  by (induction ids) simp_all

lemma filter_is_lookup_lookups [simp]:
  "filter is_lookup (map (GetRecord z) names) = map (GetRecord z) names"
  by (induction names) simp_all

lemma filter_is_lookup_patches [simp]:
  "filter is_lookup (map (\<lambda>i. PatchRecord z i ip) ids) = []"
  by (induction ids) simp_all

lemma main_job_zone_requests:
  "ipify e = IpText ip \<Longrightarrow> prev \<noteq> Some ip \<Longrightarrow>
   filter is_zone_lookup (requests (main_job cfg e prev)) = [GetZone (zone cfg)]"
  by (simp add: main_job_def Let_def split: sum.splits option.splits)

lemma main_job_lookup_requests:
  "ipify e = IpText ip \<Longrightarrow> prev \<noteq> Some ip \<Longrightarrow>
   snd (getZoneId (cloudflare e) (zone cfg)) = Inr zoneId \<Longrightarrow> \<not> falsy zoneId \<Longrightarrow>
   filter is_lookup (requests (main_job cfg e prev)) =
     map (GetRecord (to_str zoneId)) (split_comma (records cfg))"
  by (simp add: main_job_def Let_def split: sum.splits option.splits)

text \<open>The validation gate of \<^verbatim>\<open>part_000\<close>: when a configured name has no id after record
  resolution, the pass fails with the first such name and issues no update.\<close>

lemma main_job_validation_gate:
  assumes "ipify e = IpText ip" and "previousIp \<noteq> Some ip"
    and "snd (getZoneId (cloudflare e) (zone cfg)) = Inr zoneId" and "\<not> falsy zoneId"
    and "snd (getRecordIds (cloudflare e) (to_str zoneId) (split_comma (records cfg))) = Inr m"
    and "i < length (split_comma (records cfg))"
    and "falsy (obj_get m (split_comma (records cfg) ! i))"
    and "\<forall>j < i. \<not> falsy (obj_get m (split_comma (records cfg) ! j))"
  shows "main_job cfg e previousIp =
           \<lparr>outcome = Failed (RecordDoesntExist (split_comma (records cfg) ! i)),
            cache = Some ip,
            requests = [FetchIp, GetZone (zone cfg)] @
                       map (GetRecord (to_str zoneId)) (split_comma (records cfg))\<rparr>"
    and "filter is_update (requests (main_job cfg e previousIp)) = []"
proof -
  let ?names = "split_comma (records cfg)"
  have "find (\<lambda>n. falsy (obj_get m n)) ?names = Some (?names ! i)"
    using assms(6,7,8) by (auto simp: find_Some_iff)
  from main_job_record_missing [OF assms(1-5) this]
  show "main_job cfg e previousIp =
           \<lparr>outcome = Failed (RecordDoesntExist (?names ! i)),
            cache = Some ip,
            requests = [FetchIp, GetZone (zone cfg)] @ map (GetRecord (to_str zoneId)) ?names\<rparr>"
    .
  then show "filter is_update (requests (main_job cfg e previousIp)) = []"
    by simp
qed

lemma main_job_example_missing_record:
  "main_job example_config (example_env one_zone only_a_found all_updated) None =
     \<lparr>outcome = Failed (RecordDoesntExist ''b.example.com''),
      cache = Some ''203.0.113.7'',
      requests = [FetchIp, GetZone ''example.com'',
                  GetRecord ''z1'' ''a.example.com'', GetRecord ''z1'' ''b.example.com'']\<rparr>"
  by code_simp

lemma main_job_update_requests:
  assumes "filter is_update (requests (main_job cfg e previousIp)) \<noteq> []"
  shows "\<exists>ip zoneId m.
           ipify e = IpText ip \<and> previousIp \<noteq> Some ip \<and>
           snd (getZoneId (cloudflare e) (zone cfg)) = Inr (Some zoneId) \<and> zoneId \<noteq> [] \<and>
           snd (getRecordIds (cloudflare e) zoneId (split_comma (records cfg))) = Inr m \<and>
           (\<forall>n \<in> set (split_comma (records cfg)). \<not> falsy (obj_get m n)) \<and>
           filter is_lookup (requests (main_job cfg e previousIp)) =
             map (GetRecord zoneId) (split_comma (records cfg)) \<and>
           filter is_update (requests (main_job cfg e previousIp)) =
             map (\<lambda>v. PatchRecord zoneId (to_str v) ip) (object_values m)"
proof -
  from main_job_updates_nonempty [OF assms] obtain ip z m where
    h: "ipify e = IpText ip" "previousIp \<noteq> Some ip"
      "snd (getZoneId (cloudflare e) (zone cfg)) = Inr z" "\<not> falsy z"
      "snd (getRecordIds (cloudflare e) (to_str z) (split_comma (records cfg))) = Inr m"
      "find (\<lambda>n. falsy (obj_get m n)) (split_comma (records cfg)) = None"
    by blast
  from h(4) obtain zoneId where z: "z = Some zoneId" "zoneId \<noteq> []"
    by (cases z) simp_all
  have valid: "\<forall>n \<in> set (split_comma (records cfg)). \<not> falsy (obj_get m n)"
    using h(6) by (simp add: find_None_iff)
  have "filter is_lookup (requests (main_job cfg e previousIp)) =
          map (GetRecord zoneId) (split_comma (records cfg))"
    and "filter is_update (requests (main_job cfg e previousIp)) =
          map (\<lambda>v. PatchRecord zoneId (to_str v) ip) (object_values m)"
    using main_job_update_step [OF h] z by (simp_all add: comp_def)
  with h z valid show ?thesis by auto
qed

lemma main_job_update_count:
  assumes "filter is_update (requests (main_job cfg e previousIp)) \<noteq> []"
  shows "length (filter is_lookup (requests (main_job cfg e previousIp)))
           = length (split_comma (records cfg))"
    and "length (filter is_update (requests (main_job cfg e previousIp)))
           = card (set (split_comma (records cfg)))"
proof -
  from main_job_update_requests [OF assms] obtain ip zoneId m where
    h: "snd (getRecordIds (cloudflare e) zoneId (split_comma (records cfg))) = Inr m"
      "filter is_lookup (requests (main_job cfg e previousIp)) =
         map (GetRecord zoneId) (split_comma (records cfg))"
      "filter is_update (requests (main_job cfg e previousIp)) =
         map (\<lambda>v. PatchRecord zoneId (to_str v) ip) (object_values m)"
    by blast
  show "length (filter is_lookup (requests (main_job cfg e previousIp)))
           = length (split_comma (records cfg))"
    using h(2) by simp
  show "length (filter is_update (requests (main_job cfg e previousIp)))
           = card (set (split_comma (records cfg)))"
    using h(3) getRecordIds_length [OF h(1)] by (simp add: object_values_def)
qed

lemma card_less_length: "\<not> distinct xs \<Longrightarrow> card (set xs) < length xs"
  using card_length [of xs] card_distinct [of xs] by fastforce

lemma lookup_task_match:
  "snd (cf (GetRecord zoneId n)) = Ok (Result (Some i # others)) \<Longrightarrow>
   snd (lookup_task cf zoneId n) = Inr (Some i)"
  by (simp add: lookup_task_def)

subsection \<open>Rejections\<close>

lemma insort_key_map_task:
  "insort_key k (f x) (map f xs) = map f (insort_key (\<lambda>y. k (f y)) x xs)"
  by (induction xs) simp_all

lemma sort_key_map_task: "sort_key k (map f xs) = map f (sort_key (k \<circ> f) xs)"
  by (induction xs) (simp_all add: insort_key_map_task comp_def)

lemma settle_order_map:
  "settle_order (map f xs) = map (snd \<circ> f) (sort_key (fst \<circ> f) xs)"
  by (simp add: settle_order_def sort_key_map_task)

lemma fst_store_task [simp]: "fst (store_task n t) = fst t"
  by (simp add: store_task_def)

lemma first_rejection_store:
  "first_rejection (map (\<lambda>n. snd (store_task n (lookup_task cf z n))) xs) =
   first_rejection (map (\<lambda>n. snd (lookup_task cf z n)) xs)"
proof (induction xs)
  case Nil
  show ?case by simp
next
  case (Cons x xs)
  then show ?case
    by (cases "snd (lookup_task cf z x)") (simp_all add: snd_store_task)
qed

text \<open>Both versions of \<^verbatim>\<open>getRecordIds\<close> reject alike: with the reason of the lookup that
  rejects first in time.\<close>

lemma first_rejection_lookups:
  "first_rejection
     (settle_order (map (\<lambda>n. store_task n (lookup_task cf z n)) names)) =
   first_rejection (settle_order (map (lookup_task cf z) names))"
proof -
  have "(fst \<circ> (\<lambda>n. store_task n (lookup_task cf z n))) = (fst \<circ> lookup_task cf z)"
    by (simp add: fun_eq_iff)
  then show ?thesis
    by (simp add: settle_order_map comp_def first_rejection_store)
qed

lemma getRecordIds_Inl_iff:
  "snd (getRecordIds cf z names) = Inl err \<longleftrightarrow>
   first_rejection (settle_order (map (lookup_task cf z) names)) = Some err"
  by (simp add: getRecordIds_def Let_def promise_all_def first_rejection_lookups
           split: option.splits)

lemma cdu_getRecordIds_Inl_iff:
  "snd (cdu_getRecordIds cf z names) = Inl err \<longleftrightarrow>
   first_rejection (settle_order (map (lookup_task cf z) names)) = Some err"
  by (simp add: cdu_getRecordIds_def promise_all_def split: option.splits)

lemma cdu_getRecordIds_InrD:
  assumes "snd (cdu_getRecordIds cf z names) = Inr ids"
  shows "map Inr ids = map (\<lambda>n. snd (lookup_task cf z n)) names"
proof -
  let ?ts = "map (lookup_task cf z) names"
  from assms have p: "promise_all ?ts = Inr ids"
    by (simp add: cdu_getRecordIds_def)
  then have "\<forall>t \<in> set ?ts. \<exists>v. snd t = Inr v"
    using promise_all_Inr_iff by blast
  then have "\<forall>s \<in> set (map snd ?ts). \<exists>v. s = Inr v"
    by auto
  from fulfilled_all_Inr [OF this] promise_all_InrD [OF p] show ?thesis
    by (simp add: comp_def)
qed

lemma lookup_task_rejects:
  "snd (cf (GetRecord z n)) = NotOk \<Longrightarrow> snd (lookup_task cf z n) = Inl (FailedToFindRecord n)"
  "snd (cf (GetRecord z n)) = Rejected reason \<Longrightarrow> snd (lookup_task cf z n) = Inl (FetchError reason)"
  by (simp_all add: lookup_task_def)

lemma some_lookup_rejects:
  assumes "n \<in> set names" and "snd (lookup_task cf z n) = Inl e0"
  shows "\<exists>err. first_rejection (settle_order (map (lookup_task cf z) names)) = Some err"
proof (cases "first_rejection (settle_order (map (lookup_task cf z) names))")
  case None
  then have "\<forall>s \<in> snd ` set (map (lookup_task cf z) names). \<exists>v. s = Inr v"
    by (simp only: first_rejection_None_iff set_settle_order)
  with assms show ?thesis by force
next
  case (Some err)
  then show ?thesis by blast
qed

lemma only_lookup_rejects:
  assumes "n \<in> set names" and "snd (lookup_task cf z n) = Inl e0"
    and "\<forall>k \<in> set names. k \<noteq> n \<longrightarrow> (\<exists>v. snd (lookup_task cf z k) = Inr v)"
    and "first_rejection (settle_order (map (lookup_task cf z) names)) = Some err"
  shows "err = e0"
proof -
  from first_rejection_SomeD [OF assms(4)]
  have "Inl err \<in> snd ` set (map (lookup_task cf z) names)"
    by (simp only: set_settle_order)
  then obtain k where k: "k \<in> set names" "snd (lookup_task cf z k) = Inl err"
    by (auto simp: image_iff)
  with assms(3) have "k = n" by force
  with k assms(2) show ?thesis by simp
qed

lemma update_task_rejects:
  "snd (cf (PatchRecord z r ip)) = NotOk \<Longrightarrow> snd (update_task cf z ip r) = Inl (FailedToUpdate r)"
  "snd (cf (PatchRecord z r ip)) = Rejected reason \<Longrightarrow>
   snd (update_task cf z ip r) = Inl (FetchError reason)"
  "snd (cf (PatchRecord z r ip)) = Ok InvalidJson \<Longrightarrow> snd (update_task cf z ip r) = Inl JsonError"
  by (simp_all add: update_task_def)

lemma updateDNSRecord_only_failure:
  assumes "r \<in> set ids" and "snd (update_task cf z ip r) = Inl err"
    and "\<forall>r' \<in> set ids. r' \<noteq> r \<longrightarrow> snd (update_task cf z ip r') = Inr ()"
  shows "updateDNSRecord cf z ids ip = (map (\<lambda>i. PatchRecord z i ip) ids, Inl err)"
proof -
  let ?ts = "map (update_task cf z ip) ids"
  have in_ts: "update_task cf z ip r \<in> set ?ts"
    using assms(1) by simp
  have "\<forall>u \<in> set ?ts. \<forall>e'. snd u = Inl e' \<longrightarrow> e' = err"
  proof (intro ballI allI impI)
    fix u e' assume u: "u \<in> set ?ts" "snd u = Inl e'"
    then obtain r' where r': "r' \<in> set ids" "u = update_task cf z ip r'"
      by auto
    show "e' = err"
    proof (cases "r' = r")
      case True
      with r' u assms(2) show ?thesis by simp
    next
      case False
      with assms(3) r'(1) have "snd (update_task cf z ip r') = Inr ()"
        by blast
      with r' u show ?thesis by simp
    qed
  qed
  from promise_all_only_rejection [OF in_ts assms(2) this] show ?thesis
    by (simp add: updateDNSRecord_def)
qed

subsection \<open>The two versions\<close>

lemma obj_get_member:
  "distinct (map fst m) \<Longrightarrow> (k, v) \<in> set m \<Longrightarrow> obj_get m k = v"
  by (simp add: obj_get_def)

lemma object_values_by_key:
  "distinct (map fst m) \<Longrightarrow> object_values m = map (obj_get m) (map fst m)"
proof -
  assume "distinct (map fst m)"
  then have "snd x = obj_get m (fst x)" if "x \<in> set m" for x
    using that obj_get_member [of m "fst x" "snd x"] by simp
  then show ?thesis
    by (simp add: object_values_def)
qed

lemma resolved_ids_same_set:
  assumes "snd (getRecordIds cf z names) = Inr m"
    and "snd (cdu_getRecordIds cf z names) = Inr ids"
  shows "ids = map (obj_get m) names"
    and "set (object_values m) = set ids"
    and "distinct names \<Longrightarrow> mset (object_values m) = mset ids"
proof -
  note d = getRecordIds_InrD [OF assms(1)]
  have "map Inr ids = map (\<lambda>n. snd (lookup_task cf z n)) names"
    using assms(2) by (rule cdu_getRecordIds_InrD)
  also have "\<dots> = map (\<lambda>n. Inr (obj_get m n)) names"
    using getRecordIds_obj_get [OF assms(1)] by simp
  also have "\<dots> = map Inr (map (obj_get m) names)"
    by simp
  finally have "map (Inr :: _ \<Rightarrow> error + _) ids = map Inr (map (obj_get m) names)" .
  then show ids: "ids = map (obj_get m) names"
    by (rule map_injective) simp
  have v: "object_values m = map (obj_get m) (map fst m)"
    using d(1) by (rule object_values_by_key)
  have "set (object_values m) = obj_get m ` set (map fst m)"
    by (simp only: v set_map)
  also have "\<dots> = obj_get m ` set names"
    using d(2) by simp
  finally show "set (object_values m) = set ids"
    by (simp add: ids)
  show "mset (object_values m) = mset ids" if "distinct names"
  proof -
    have "set (map fst m) = set names"
      using d(2) by simp
    with d(1) that have "mset (map fst m) = mset names"
      by (simp only: set_eq_iff_mset_eq_distinct)
    then have "image_mset (obj_get m) (mset (map fst m)) = image_mset (obj_get m) (mset names)"
      by (rule arg_cong)
    then show ?thesis
      by (simp only: v ids mset_map)
  qed
qed

lemma updateDNSRecord_Inr_iff:
  "(\<exists>vs. snd (updateDNSRecord cf z ids ip) = Inr vs) \<longleftrightarrow>
   (\<forall>i \<in> set ids. \<exists>v. snd (update_task cf z ip i) = Inr v)"
  by (simp add: updateDNSRecord_def promise_all_Inr_iff)

lemma update_outcome_same_set:
  assumes "set ids = set ids'"
  shows "(case snd (updateDNSRecord cf z ids ip) of Inl err \<Rightarrow> Failed err | Inr _ \<Rightarrow> Updated) =
         (case snd (updateDNSRecord cf z ids' ip) of Inl err \<Rightarrow> Failed err | Inr _ \<Rightarrow> Updated)
       \<or> (\<exists>err err'.
            (case snd (updateDNSRecord cf z ids ip) of Inl err \<Rightarrow> Failed err | Inr _ \<Rightarrow> Updated)
              = Failed err \<and>
            (case snd (updateDNSRecord cf z ids' ip) of Inl err \<Rightarrow> Failed err | Inr _ \<Rightarrow> Updated)
              = Failed err')"
proof -
  have "(\<exists>vs. snd (updateDNSRecord cf z ids ip) = Inr vs) \<longleftrightarrow>
        (\<exists>vs. snd (updateDNSRecord cf z ids' ip) = Inr vs)"
    using assms by (simp only: updateDNSRecord_Inr_iff)
  then show ?thesis
    by (cases "snd (updateDNSRecord cf z ids ip)"; cases "snd (updateDNSRecord cf z ids' ip)")
       simp_all
qed

text \<open>Zone resolution in \<^verbatim>\<open>part_000\<close>: one zone request; the pass fails with
  \<open>ZoneDoesntExist\<close> when the provider reports no zone and with \<open>FailedToFindZone\<close>
  when the response has no success status, issuing nothing else; otherwise
  \<open>getZoneId\<close> returns the id of the first zone, under which the lookups are sent.\<close>

lemma main_job_zone_resolution:
  assumes "ipify e = IpText ip" and "previousIp \<noteq> Some ip"
  shows "fst (getZoneId (cloudflare e) (zone cfg)) = [GetZone (zone cfg)] \<and>
         filter is_zone_lookup (requests (main_job cfg e previousIp)) = [GetZone (zone cfg)] \<and>
         (snd (cloudflare e (GetZone (zone cfg))) = Ok (Result []) \<longrightarrow>
            main_job cfg e previousIp =
              \<lparr>outcome = Failed (ZoneDoesntExist (zone cfg)), cache = Some ip,
               requests = [FetchIp, GetZone (zone cfg)]\<rparr>) \<and>
         (snd (cloudflare e (GetZone (zone cfg))) = NotOk \<longrightarrow>
            snd (getZoneId (cloudflare e) (zone cfg)) = Inl (FailedToFindZone (zone cfg)) \<and>
            main_job cfg e previousIp =
              \<lparr>outcome = Failed (FailedToFindZone (zone cfg)), cache = Some ip,
               requests = [FetchIp, GetZone (zone cfg)]\<rparr>) \<and>
         (snd (cloudflare e (GetZone (zone cfg))) = Ok (Result (Some zoneId # others)) \<longrightarrow>
            snd (getZoneId (cloudflare e) (zone cfg)) = Inr (Some zoneId)) \<and>
         (snd (cloudflare e (GetZone (zone cfg))) = Ok (Result (Some zoneId # others)) \<and>
          zoneId \<noteq> [] \<longrightarrow>
            filter is_lookup (requests (main_job cfg e previousIp)) =
              map (GetRecord zoneId) (split_comma (records cfg)))"
proof -
  have one: "filter is_zone_lookup (requests (main_job cfg e previousIp)) = [GetZone (zone cfg)]"
    using assms by (rule main_job_zone_requests)
  have none: "main_job cfg e previousIp =
              \<lparr>outcome = Failed (ZoneDoesntExist (zone cfg)), cache = Some ip,
               requests = [FetchIp, GetZone (zone cfg)]\<rparr>"
    if "snd (cloudflare e (GetZone (zone cfg))) = Ok (Result [])"
  proof -
    from that have "snd (getZoneId (cloudflare e) (zone cfg)) = Inr None"
      by (simp add: getZoneId_def)
    with assms show ?thesis by (simp add: main_job_zone_missing)
  qed
  have refused: "snd (getZoneId (cloudflare e) (zone cfg)) = Inl (FailedToFindZone (zone cfg)) \<and>
            main_job cfg e previousIp =
              \<lparr>outcome = Failed (FailedToFindZone (zone cfg)), cache = Some ip,
               requests = [FetchIp, GetZone (zone cfg)]\<rparr>"
    if "snd (cloudflare e (GetZone (zone cfg))) = NotOk"
  proof -
    from that have "snd (getZoneId (cloudflare e) (zone cfg)) = Inl (FailedToFindZone (zone cfg))"
      by (simp add: getZoneId_def)
    with assms show ?thesis by (simp add: main_job_zone_error)
  qed
  have first: "snd (getZoneId (cloudflare e) (zone cfg)) = Inr (Some zoneId)"
    if "snd (cloudflare e (GetZone (zone cfg))) = Ok (Result (Some zoneId # others))"
    using that by (simp add: getZoneId_def)
  have found: "filter is_lookup (requests (main_job cfg e previousIp)) =
              map (GetRecord zoneId) (split_comma (records cfg))"
    if "snd (cloudflare e (GetZone (zone cfg))) = Ok (Result (Some zoneId # others))"
      and "zoneId \<noteq> []"
  proof -
    from that(2) have "\<not> falsy (Some zoneId)" by simp
    from main_job_lookup_requests [OF assms first [OF that(1)] this] show ?thesis by simp
  qed
  from one none refused first found show ?thesis by simp
qed

lemma main_job_example_missing_zone:
  "main_job example_config
     \<lparr>ipify = IpText ''203.0.113.7'',
      cloudflare = known_zone_only (example_provider (Ok (Result [])) both_found all_updated)\<rparr>
     None =
     \<lparr>outcome = Failed (ZoneDoesntExist ''example.com''), cache = Some ''203.0.113.7'',
      requests = [FetchIp, GetZone ''example.com'']\<rparr>"
  by code_simp

section \<open>The claims\<close>

text \<open>
  C3. When the address resolver returns the address the cache holds, compared as
  strings, the pass is a no-op in both versions: it ends as \<open>NoChange\<close>, it issues no
  request to the provider (no zone lookup, no record lookup, no update), and the cache
  is what it was.
\<close>

theorem unchanged_address_is_noop:
  assumes "ipify e = IpText ip"
  shows "outcome (main_job cfg e (Some ip)) = NoChange \<and>
         cache (main_job cfg e (Some ip)) = Some ip \<and>
         filter is_provider_request (requests (main_job cfg e (Some ip))) = [] \<and>
         outcome (cdu_main_job cfg e (Some ip)) = NoChange \<and>
         cache (cdu_main_job cfg e (Some ip)) = Some ip \<and>
         filter is_provider_request (requests (cdu_main_job cfg e (Some ip))) = []"
  using assms by (simp add: main_job_no_change cdu_main_job_no_change)

theorem unchanged_address_is_noop_witness:
  "ipify (example_env one_zone both_found all_updated) = IpText ''203.0.113.7'' \<and>
   outcome (main_job example_config (example_env one_zone both_found all_updated)
              (Some ''203.0.113.7'')) = NoChange \<and>
   cache (main_job example_config (example_env one_zone both_found all_updated)
              (Some ''203.0.113.7'')) = Some ''203.0.113.7'' \<and>
   filter is_provider_request
     (requests (main_job example_config (example_env one_zone both_found all_updated)
                  (Some ''203.0.113.7''))) = [] \<and>
   outcome (cdu_main_job example_config (example_env one_zone both_found all_updated)
              (Some ''203.0.113.7'')) = NoChange \<and>
   filter is_provider_request
     (requests (cdu_main_job example_config (example_env one_zone both_found all_updated)
                  (Some ''203.0.113.7''))) = []"
proof -
  have h: "ipify (example_env one_zone both_found all_updated) = IpText ''203.0.113.7''"
    by (simp add: example_env_def)
  show ?thesis
    using h unchanged_address_is_noop [OF h, of example_config] by simp
qed

text \<open>
  C2. When the current address differs from the cached one, the cache holds the new
  address whatever happens afterwards, in both versions: the assignment precedes the
  zone lookup. So a pass that fails in zone resolution (the request fails, or, in
  \<^verbatim>\<open>part_000\<close>, no zone id comes back) has issued no update and leaves the new address
  in the cache, and the next pass that sees the same address is a no-op: the update is
  not tried again.
\<close>

theorem cache_written_before_resolution:
  assumes "ipify e = IpText ip" and "previousIp \<noteq> Some ip"
  shows "cache (main_job cfg e previousIp) = Some ip \<and>
         cache (cdu_main_job cfg e previousIp) = Some ip \<and>
         (snd (getZoneId (cloudflare e) (zone cfg)) = Inl err \<longrightarrow>
            main_job cfg e previousIp =
              \<lparr>outcome = Failed err, cache = Some ip,
               requests = [FetchIp, GetZone (zone cfg)]\<rparr> \<and>
            cdu_main_job cfg e previousIp =
              \<lparr>outcome = Failed err, cache = Some ip,
               requests = [FetchIp, GetZone (zone cfg)]\<rparr>) \<and>
         (snd (getZoneId (cloudflare e) (zone cfg)) = Inr zoneId \<and> falsy zoneId \<longrightarrow>
            main_job cfg e previousIp =
              \<lparr>outcome = Failed (ZoneDoesntExist (zone cfg)), cache = Some ip,
               requests = [FetchIp, GetZone (zone cfg)]\<rparr>) \<and>
         (ipify e' = IpText ip \<longrightarrow>
            main_job cfg e' (cache (main_job cfg e previousIp)) =
              \<lparr>outcome = NoChange, cache = Some ip, requests = [FetchIp]\<rparr> \<and>
            cdu_main_job cfg e' (cache (cdu_main_job cfg e previousIp)) =
              \<lparr>outcome = NoChange, cache = Some ip, requests = [FetchIp]\<rparr>)"
  using assms
  by (simp add: main_job_cache cdu_main_job_cache main_job_zone_error cdu_main_job_zone_error
        main_job_zone_missing main_job_no_change cdu_main_job_no_change)

theorem cache_written_before_resolution_witness:
  "ipify (example_env NotOk both_found all_updated) = IpText ''203.0.113.7'' \<and>
   None \<noteq> Some ''203.0.113.7'' \<and>
   snd (getZoneId (cloudflare (example_env NotOk both_found all_updated)) (zone example_config))
     = Inl (FailedToFindZone ''example.com'') \<and>
   ipify (example_env one_zone both_found all_updated) = IpText ''203.0.113.7'' \<and>
   main_job example_config (example_env NotOk both_found all_updated) None =
     \<lparr>outcome = Failed (FailedToFindZone ''example.com''), cache = Some ''203.0.113.7'',
      requests = [FetchIp, GetZone ''example.com'']\<rparr> \<and>
   main_job example_config (example_env one_zone both_found all_updated)
     (cache (main_job example_config (example_env NotOk both_found all_updated) None)) =
     \<lparr>outcome = NoChange, cache = Some ''203.0.113.7'', requests = [FetchIp]\<rparr>"
proof -
  let ?e = "example_env NotOk both_found all_updated"
  have h1: "ipify ?e = IpText ''203.0.113.7''"
    by (simp add: example_env_def)
  have h2: "(None :: string option) \<noteq> Some ''203.0.113.7''"
    by simp
  have h3: "snd (getZoneId (cloudflare ?e) (zone example_config))
              = Inl (FailedToFindZone ''example.com'')"
    by (simp add: example_env_def example_config_def getZoneId_def example_provider_def)
  have h4: "ipify (example_env one_zone both_found all_updated) = IpText ''203.0.113.7''"
    by (simp add: example_env_def)
  have z: "zone example_config = ''example.com''"
    by (simp add: example_config_def)
  note t = cache_written_before_resolution [OF h1 h2, of example_config
        "FailedToFindZone ''example.com''" None "example_env one_zone both_found all_updated"]
  show ?thesis
    using h1 h2 h3 h3 [unfolded z] h4 t [unfolded z] by blast
qed

text \<open>
  C7. Zone resolution issues one request, the one of \<open>getZoneId\<close>; a pass must fail
  with a not-found error when the provider reports no matching zone and with a provider
  error when the response has no success status, and otherwise go on with the id of the
  first match. The callback of \<^verbatim>\<open>part_000\<close> does so (\<open>main_job_zone_resolution\<close>).
  \<open>getZoneId\<close> itself returns \<^verbatim>\<open>undefined\<close> for an empty result, and the callback of
  \<^verbatim>\<open>cdu.ts\<close> does not look at what it returns: when the provider reports no zone, the
  pass goes on to look the records up under the zone id \<^verbatim>\<open>undefined\<close>. With a
  provider that refuses that zone id the pass reports a record lookup as failed; with
  one that ignores the zone id it updates the records and succeeds.
\<close>

theorem cdu_continues_without_zone:
  "snd (getZoneId (example_provider (Ok (Result [])) both_found all_updated) ''example.com'')
     = Inr None \<and>
   cdu_main_job example_config
     \<lparr>ipify = IpText ''203.0.113.7'',
      cloudflare = known_zone_only (example_provider (Ok (Result [])) both_found all_updated)\<rparr>
     None =
     \<lparr>outcome = Failed (FailedToFindRecord ''a.example.com''), cache = Some ''203.0.113.7'',
      requests = [FetchIp, GetZone ''example.com'',
                  GetRecord ''undefined'' ''a.example.com'',
                  GetRecord ''undefined'' ''b.example.com'']\<rparr> \<and>
   cdu_main_job example_config (example_env (Ok (Result [])) both_found all_updated) None =
     \<lparr>outcome = Updated, cache = Some ''203.0.113.7'',
      requests = [FetchIp, GetZone ''example.com'',
                  GetRecord ''undefined'' ''a.example.com'',
                  GetRecord ''undefined'' ''b.example.com'',
                  PatchRecord ''undefined'' ''r1'' ''203.0.113.7'',
                  PatchRecord ''undefined'' ''r2'' ''203.0.113.7'']\<rparr>"
  by code_simp

text \<open>
  C1. A pass in which record resolution completes while a configured name has no id
  must fail with the first such name and issue no update. The callback of
  \<^verbatim>\<open>part_000\<close> does so (\<open>main_job_validation_gate\<close>). The callback of \<^verbatim>\<open>cdu.ts\<close> has no
  such check: with the records \<^verbatim>\<open>a.example.com,b.example.com\<close> configured and only the
  first known to the provider, it sends the update of the record that resolved and an
  update of the record id \<^verbatim>\<open>undefined\<close>, and what it reports is the failure of that
  update.
\<close>

theorem cdu_updates_despite_missing_record:
  "cdu_main_job example_config (example_env one_zone only_a_found all_updated) None =
     \<lparr>outcome = Failed (FailedToUpdate ''undefined''),
      cache = Some ''203.0.113.7'',
      requests = [FetchIp, GetZone ''example.com'',
                  GetRecord ''z1'' ''a.example.com'', GetRecord ''z1'' ''b.example.com'',
                  PatchRecord ''z1'' ''r1'' ''203.0.113.7'',
                  PatchRecord ''z1'' ''undefined'' ''203.0.113.7'']\<rparr>"
  by code_simp

text \<open>
  C8. A pass of \<^verbatim>\<open>part_000\<close> that issues updates has resolved every configured name to
  an id, and its update requests are those of the configured names, each name's record
  id under the resolved zone, no more and no fewer; every one of them carries the
  address the resolver returned in this pass.
\<close>

theorem updates_cover_configured_names:
  assumes "filter is_update (requests (main_job cfg e previousIp)) \<noteq> []"
  shows "\<exists>ip zoneId recordIds.
           ipify e = IpText ip \<and>
           snd (getZoneId (cloudflare e) (zone cfg)) = Inr (Some zoneId) \<and>
           snd (getRecordIds (cloudflare e) zoneId (split_comma (records cfg))) = Inr recordIds \<and>
           fst ` set recordIds = set (split_comma (records cfg)) \<and>
           (\<forall>recordName \<in> set (split_comma (records cfg)).
              \<not> falsy (obj_get recordIds recordName) \<and>
              snd (lookup_task (cloudflare e) zoneId recordName)
                = Inr (obj_get recordIds recordName)) \<and>
           set (filter is_update (requests (main_job cfg e previousIp))) =
             (\<lambda>recordName. PatchRecord zoneId (to_str (obj_get recordIds recordName)) ip)
               ` set (split_comma (records cfg))"
proof -
  let ?names = "split_comma (records cfg)"
  from main_job_update_requests [OF assms] obtain ip zoneId m where
    h: "ipify e = IpText ip"
      "snd (getZoneId (cloudflare e) (zone cfg)) = Inr (Some zoneId)"
      "snd (getRecordIds (cloudflare e) zoneId ?names) = Inr m"
      "\<forall>n \<in> set ?names. \<not> falsy (obj_get m n)"
      "filter is_update (requests (main_job cfg e previousIp)) =
         map (\<lambda>v. PatchRecord zoneId (to_str v) ip) (object_values m)"
    by blast
  note d = getRecordIds_InrD [OF h(3)]
  have get: "obj_get m k = v" if "(k, v) \<in> set m" for k v
    using that d(1) by (simp add: obj_get_def)
  have "snd ` set m = obj_get m ` set ?names"
  proof (intro set_eqI iffI)
    fix v assume "v \<in> snd ` set m"
    then obtain k where kv: "(k, v) \<in> set m" by force
    then have "k \<in> set ?names" using d(2) by force
    with get [OF kv] show "v \<in> obj_get m ` set ?names" by blast
  next
    fix v assume "v \<in> obj_get m ` set ?names"
    then obtain k where k: "k \<in> set ?names" "v = obj_get m k" by blast
    with d(2) obtain w where "(k, w) \<in> set m" by force
    with get [of k w] k show "v \<in> snd ` set m" by force
  qed
  then have "(\<lambda>v. PatchRecord zoneId (to_str v) ip) ` snd ` set m =
        (\<lambda>v. PatchRecord zoneId (to_str v) ip) ` obj_get m ` set ?names"
    by (rule arg_cong)
  then have "set (map (\<lambda>v. PatchRecord zoneId (to_str v) ip) (object_values m)) =
        (\<lambda>n. PatchRecord zoneId (to_str (obj_get m n)) ip) ` set ?names"
    by (simp add: object_values_def image_image)
  with h d(2) getRecordIds_obj_get [OF h(3)] show ?thesis
    by (intro exI [of _ ip] exI [of _ zoneId] exI [of _ m]) simp
qed

theorem updates_cover_configured_names_witness:
  "filter is_update
     (requests (main_job example_config (example_env one_zone both_found all_updated) None))
     \<noteq> [] \<and>
   set (filter is_update
     (requests (main_job example_config (example_env one_zone both_found all_updated) None)))
   = (\<lambda>recordName. PatchRecord ''z1''
         (to_str (obj_get [(''b.example.com'', Some ''r2''), (''a.example.com'', Some ''r1'')]
                    recordName)) ''203.0.113.7'')
       ` set (split_comma (records example_config))"
proof -
  let ?e = "example_env one_zone both_found all_updated"
  have h: "filter is_update (requests (main_job example_config ?e None)) \<noteq> []"
    by code_simp
  from updates_cover_configured_names [OF h] obtain ip zoneId recordIds where
    t: "ipify ?e = IpText ip"
      "snd (getZoneId (cloudflare ?e) (zone example_config)) = Inr (Some zoneId)"
      "snd (getRecordIds (cloudflare ?e) zoneId (split_comma (records example_config)))
         = Inr recordIds"
      "set (filter is_update (requests (main_job example_config ?e None))) =
         (\<lambda>recordName. PatchRecord zoneId (to_str (obj_get recordIds recordName)) ip)
           ` set (split_comma (records example_config))"
    by (elim exE conjE) (rule that; assumption)
  have ip: "ip = ''203.0.113.7''"
    using t(1) by (simp add: example_env_def)
  have "snd (getZoneId (cloudflare ?e) (zone example_config)) = Inr (Some ''z1'')"
    by code_simp
  with t(2) have z: "zoneId = ''z1''"
    by simp
  have "snd (getRecordIds (cloudflare ?e) ''z1'' (split_comma (records example_config)))
          = Inr [(''b.example.com'', Some ''r2''), (''a.example.com'', Some ''r1'')]"
    by code_simp
  with t(3) z have m: "recordIds = [(''b.example.com'', Some ''r2''), (''a.example.com'', Some ''r1'')]"
    by simp
  show ?thesis
    using h t(4) unfolding ip z m by (rule conjI)
qed

text \<open>
  C9. Record resolution of \<^verbatim>\<open>part_000\<close> sends one lookup per configured entry but
  returns one entry per distinct name, and the update step sends one update per
  distinct name: when a name is configured more than once there are fewer entries and
  fewer updates than configured entries.
\<close>

theorem duplicate_names_resolved_once:
  assumes "snd (getRecordIds cf zoneId recordNames) = Inr recordIds"
    and "filter is_update (requests (main_job cfg e previousIp)) \<noteq> []"
  shows "length (fst (getRecordIds cf zoneId recordNames)) = length recordNames \<and>
         distinct (map fst recordIds) \<and>
         fst ` set recordIds = set recordNames \<and>
         length recordIds = card (set recordNames) \<and>
         (\<not> distinct recordNames \<longrightarrow> length recordIds < length recordNames) \<and>
         length (filter is_lookup (requests (main_job cfg e previousIp)))
           = length (split_comma (records cfg)) \<and>
         length (filter is_update (requests (main_job cfg e previousIp)))
           = card (set (split_comma (records cfg))) \<and>
         (\<not> distinct (split_comma (records cfg)) \<longrightarrow>
            length (filter is_update (requests (main_job cfg e previousIp)))
              < length (split_comma (records cfg)))"
  using getRecordIds_InrD(1,2) [OF assms(1)] getRecordIds_length [OF assms(1)]
    main_job_update_count [OF assms(2)] card_less_length [of recordNames]
    card_less_length [of "split_comma (records cfg)"]
  by simp

theorem duplicate_names_resolved_once_witness:
  "snd (getRecordIds (example_provider one_zone both_found all_updated) ''z1''
          [''a.example.com'', ''a.example.com''])
     = Inr [(''a.example.com'', Some ''r1'')] \<and>
   filter is_update
     (requests (main_job twice_config (example_env one_zone both_found all_updated) None))
     \<noteq> [] \<and>
   \<not> distinct [''a.example.com'', ''a.example.com''] \<and>
   \<not> distinct (split_comma (records twice_config)) \<and>
   length (fst (getRecordIds (example_provider one_zone both_found all_updated) ''z1''
          [''a.example.com'', ''a.example.com''])) = length [''a.example.com'', ''a.example.com''] \<and>
   length [(''a.example.com'', Some ''r1'')] < length [''a.example.com'', ''a.example.com''] \<and>
   length (filter is_lookup
     (requests (main_job twice_config (example_env one_zone both_found all_updated) None)))
     = length (split_comma (records twice_config)) \<and>
   length (filter is_update
     (requests (main_job twice_config (example_env one_zone both_found all_updated) None)))
     < length (split_comma (records twice_config))"
proof -
  have h1: "snd (getRecordIds (example_provider one_zone both_found all_updated) ''z1''
          [''a.example.com'', ''a.example.com''])
     = Inr [(''a.example.com'', Some ''r1'')]"
    by code_simp
  have h2: "filter is_update
     (requests (main_job twice_config (example_env one_zone both_found all_updated) None))
     \<noteq> []"
    by code_simp
  have h3: "\<not> distinct [''a.example.com'', ''a.example.com'']"
    by simp
  have h4: "\<not> distinct (split_comma (records twice_config))"
    by code_simp
  note t = duplicate_names_resolved_once [OF h1 h2]
  show ?thesis
    using h1 h2 h3 h4 t by simp
qed

text \<open>
  C5. Record resolution sends one lookup per configured entry. The claim that N
  entries resolve to a mapping of N entries fails when a name is configured twice:
  two lookups, one entry.
\<close>

theorem two_lookups_one_entry:
  "snd (example_provider one_zone both_found all_updated (GetRecord ''z1'' ''a.example.com''))
     = Ok (Result [Some ''r1'']) \<and>
   fst (getRecordIds (example_provider one_zone both_found all_updated) ''z1''
          [''a.example.com'', ''a.example.com''])
     = [GetRecord ''z1'' ''a.example.com'', GetRecord ''z1'' ''a.example.com''] \<and>
   snd (getRecordIds (example_provider one_zone both_found all_updated) ''z1''
          [''a.example.com'', ''a.example.com''])
     = Inr [(''a.example.com'', Some ''r1'')] \<and>
   length [(''a.example.com'', Some ''r1'')] \<noteq> length [''a.example.com'', ''a.example.com'']"
  by code_simp

text \<open>
  C5, amended. For N pairwise distinct names, each of whose lookups succeeds with a
  match, record resolution of \<^verbatim>\<open>part_000\<close> sends N lookups and returns a mapping of N
  entries, one per name, each being the id of the first match of that name's response,
  at whatever times the lookups settle.
\<close>

theorem distinct_names_resolved:
  assumes "distinct recordNames"
    and "\<forall>n \<in> set recordNames.
           \<exists>i others. snd (cf (GetRecord zoneId n)) = Ok (Result (Some i # others))"
  shows "fst (getRecordIds cf zoneId recordNames) = map (GetRecord zoneId) recordNames \<and>
         length (fst (getRecordIds cf zoneId recordNames)) = length recordNames \<and>
         (\<exists>recordIds.
            snd (getRecordIds cf zoneId recordNames) = Inr recordIds \<and>
            length recordIds = length recordNames \<and>
            fst ` set recordIds = set recordNames \<and>
            (\<forall>n \<in> set recordNames.
               \<exists>others. snd (cf (GetRecord zoneId n))
                          = Ok (Result (obj_get recordIds n # others))))"
proof -
  have ok: "\<forall>n \<in> set recordNames. \<exists>v. snd (lookup_task cf zoneId n) = Inr v"
    using assms(2) lookup_task_match by blast
  then obtain m where m: "snd (getRecordIds cf zoneId recordNames) = Inr m"
    using getRecordIds_Inr_iff by blast
  have len: "length m = length recordNames"
    using getRecordIds_length [OF m] assms(1) by (simp add: distinct_card)
  have ids: "\<exists>others. snd (cf (GetRecord zoneId n)) = Ok (Result (obj_get m n # others))"
    if "n \<in> set recordNames" for n
  proof -
    from assms(2) that obtain i others where
      r: "snd (cf (GetRecord zoneId n)) = Ok (Result (Some i # others))"
      by blast
    then have "snd (lookup_task cf zoneId n) = Inr (Some i)"
      by (rule lookup_task_match)
    with getRecordIds_obj_get [OF m that] have "obj_get m n = Some i"
      by simp
    with r show ?thesis by simp
  qed
  show ?thesis
    using m len getRecordIds_InrD(2) [OF m] ids by simp
qed

theorem distinct_names_resolved_witness:
  "distinct [''a.example.com'', ''b.example.com''] \<and>
   snd (example_provider one_zone both_found all_updated (GetRecord ''z1'' ''a.example.com''))
     = Ok (Result (Some ''r1'' # [])) \<and>
   snd (example_provider one_zone both_found all_updated (GetRecord ''z1'' ''b.example.com''))
     = Ok (Result (Some ''r2'' # [])) \<and>
   length (fst (getRecordIds (example_provider one_zone both_found all_updated) ''z1''
                  [''a.example.com'', ''b.example.com'']))
     = length [''a.example.com'', ''b.example.com''] \<and>
   snd (getRecordIds (example_provider one_zone both_found all_updated) ''z1''
          [''a.example.com'', ''b.example.com''])
     = Inr [(''b.example.com'', Some ''r2''), (''a.example.com'', Some ''r1'')] \<and>
   length [(''b.example.com'', Some ''r2''), (''a.example.com'', Some ''r1'')]
     = length [''a.example.com'', ''b.example.com'']"
proof -
  let ?cf = "example_provider one_zone both_found all_updated"
  have h1: "distinct [''a.example.com'', ''b.example.com'']"
    by simp
  have a: "snd (?cf (GetRecord ''z1'' ''a.example.com'')) = Ok (Result (Some ''r1'' # []))"
    by code_simp
  have b: "snd (?cf (GetRecord ''z1'' ''b.example.com'')) = Ok (Result (Some ''r2'' # []))"
    by code_simp
  have h2: "\<forall>n \<in> set [''a.example.com'', ''b.example.com''].
              \<exists>i others. snd (?cf (GetRecord ''z1'' n)) = Ok (Result (Some i # others))"
    using a b by simp
  have v: "snd (getRecordIds ?cf ''z1'' [''a.example.com'', ''b.example.com''])
             = Inr [(''b.example.com'', Some ''r2''), (''a.example.com'', Some ''r1'')]"
    by code_simp
  from distinct_names_resolved [OF h1 h2] obtain recordIds where
    t: "length (fst (getRecordIds ?cf ''z1'' [''a.example.com'', ''b.example.com'']))
          = length [''a.example.com'', ''b.example.com'']"
      "snd (getRecordIds ?cf ''z1'' [''a.example.com'', ''b.example.com'']) = Inr recordIds"
      "length recordIds = length [''a.example.com'', ''b.example.com'']"
    by (elim exE conjE) (rule that; assumption)
  from t(2) v have "recordIds = [(''b.example.com'', Some ''r2''), (''a.example.com'', Some ''r1'')]"
    by simp
  with t(3) have l: "length [(''b.example.com'', Some ''r2''), (''a.example.com'', Some ''r1'')]
          = length [''a.example.com'', ''b.example.com'']"
    by (simp only:)
  from h1 a b t(1) v l show ?thesis
    by (intro conjI)
qed

text \<open>
  C6. A lookup whose connection breaks makes record resolution fail with the reason
  \<^verbatim>\<open>fetch\<close> rejected with; the program builds an error with the record's name only for
  a response without success status.
\<close>

theorem transport_failure_names_no_record:
  "snd (example_provider one_zone a_unreachable all_updated
          (GetRecord ''z1'' ''a.example.com'')) = Rejected ''connection reset'' \<and>
   snd (getRecordIds (example_provider one_zone a_unreachable all_updated) ''z1''
          [''a.example.com'', ''b.example.com'']) = Inl (FetchError ''connection reset'') \<and>
   snd (cdu_getRecordIds (example_provider one_zone a_unreachable all_updated) ''z1''
          [''a.example.com'', ''b.example.com'']) = Inl (FetchError ''connection reset'') \<and>
   FetchError ''connection reset'' \<noteq> FailedToFindRecord ''a.example.com'' \<and>
   message (FetchError ''connection reset'') = ''connection reset''"
  by code_simp

text \<open>
  C6, amended. When a lookup is answered without success status or its request fails,
  record resolution fails in both versions, with the error of the failing lookup that
  settles first, the mapping is not returned, and the pass fails with that error
  without issuing an update. When it is the only failing lookup, the error is
  \<open>FailedToFindRecord\<close> with its name for a response without success status, and the
  reason of the rejected \<^verbatim>\<open>fetch\<close> otherwise.
\<close>

theorem failed_lookup_aborts_pass:
  assumes "ipify e = IpText ip" and "previousIp \<noteq> Some ip"
    and "snd (getZoneId (cloudflare e) (zone cfg)) = Inr (Some zoneId)" and "zoneId \<noteq> []"
    and "n \<in> set (split_comma (records cfg))"
    and "snd (cloudflare e (GetRecord zoneId n)) = NotOk \<or>
         snd (cloudflare e (GetRecord zoneId n)) = Rejected reason"
  shows "\<exists>err.
           first_rejection
             (settle_order (map (lookup_task (cloudflare e) zoneId) (split_comma (records cfg))))
             = Some err \<and>
           snd (getRecordIds (cloudflare e) zoneId (split_comma (records cfg))) = Inl err \<and>
           snd (cdu_getRecordIds (cloudflare e) zoneId (split_comma (records cfg))) = Inl err \<and>
           main_job cfg e previousIp =
             \<lparr>outcome = Failed err, cache = Some ip,
              requests = [FetchIp, GetZone (zone cfg)] @
                         map (GetRecord zoneId) (split_comma (records cfg))\<rparr> \<and>
           cdu_main_job cfg e previousIp =
             \<lparr>outcome = Failed err, cache = Some ip,
              requests = [FetchIp, GetZone (zone cfg)] @
                         map (GetRecord zoneId) (split_comma (records cfg))\<rparr> \<and>
           filter is_update (requests (main_job cfg e previousIp)) = [] \<and>
           filter is_update (requests (cdu_main_job cfg e previousIp)) = [] \<and>
           ((\<forall>k \<in> set (split_comma (records cfg)).
               k \<noteq> n \<longrightarrow> (\<exists>v. snd (lookup_task (cloudflare e) zoneId k) = Inr v)) \<longrightarrow>
            err = (if snd (cloudflare e (GetRecord zoneId n)) = NotOk
                   then FailedToFindRecord n else FetchError reason))"
proof -
  let ?cf = "cloudflare e" and ?names = "split_comma (records cfg)"
  let ?e0 = "if snd (?cf (GetRecord zoneId n)) = NotOk
             then FailedToFindRecord n else FetchError reason"
  have rej: "snd (lookup_task ?cf zoneId n) = Inl ?e0"
    using assms(6) by (auto simp: lookup_task_rejects)
  from some_lookup_rejects [OF assms(5) rej] obtain err where
    err: "first_rejection (settle_order (map (lookup_task ?cf zoneId) ?names)) = Some err"
    by blast
  have g: "snd (getRecordIds ?cf zoneId ?names) = Inl err"
    using err by (simp only: getRecordIds_Inl_iff)
  have c: "snd (cdu_getRecordIds ?cf zoneId ?names) = Inl err"
    using err by (simp only: cdu_getRecordIds_Inl_iff)
  have t: "\<not> falsy (Some zoneId)" "to_str (Some zoneId) = zoneId"
    using assms(4) by simp_all
  have m: "main_job cfg e previousIp =
             \<lparr>outcome = Failed err, cache = Some ip,
              requests = [FetchIp, GetZone (zone cfg)] @ map (GetRecord zoneId) ?names\<rparr>"
    using main_job_lookup_error [OF assms(1-3) t(1)] g t(2) by simp
  have d: "cdu_main_job cfg e previousIp =
             \<lparr>outcome = Failed err, cache = Some ip,
              requests = [FetchIp, GetZone (zone cfg)] @ map (GetRecord zoneId) ?names\<rparr>"
    using cdu_main_job_lookup_error [OF assms(1-3)] c t(2) by simp
  have only: "err = ?e0"
    if "\<forall>k \<in> set ?names. k \<noteq> n \<longrightarrow> (\<exists>v. snd (lookup_task ?cf zoneId k) = Inr v)"
    using only_lookup_rejects [OF assms(5) rej that err] .
  have nm: "filter is_update (requests (main_job cfg e previousIp)) = []"
    by (simp add: m)
  have nd: "filter is_update (requests (cdu_main_job cfg e previousIp)) = []"
    by (simp add: d)
  from err g c m d nm nd only show ?thesis
    by (intro exI [of _ err] conjI impI)
qed

theorem failed_lookup_aborts_pass_witness:
  "ipify (example_env one_zone a_refused all_updated) = IpText ''203.0.113.7'' \<and>
   None \<noteq> Some ''203.0.113.7'' \<and>
   snd (getZoneId (cloudflare (example_env one_zone a_refused all_updated))
          (zone example_config)) = Inr (Some ''z1'') \<and>
   ''z1'' \<noteq> [] \<and>
   ''a.example.com'' \<in> set (split_comma (records example_config)) \<and>
   snd (cloudflare (example_env one_zone a_refused all_updated)
          (GetRecord ''z1'' ''a.example.com'')) = NotOk \<and>
   main_job example_config (example_env one_zone a_refused all_updated) None =
     \<lparr>outcome = Failed (FailedToFindRecord ''a.example.com''), cache = Some ''203.0.113.7'',
      requests = [FetchIp, GetZone (zone example_config)] @
                 map (GetRecord ''z1'') (split_comma (records example_config))\<rparr> \<and>
   filter is_update
     (requests (main_job example_config (example_env one_zone a_refused all_updated) None)) = []"
proof -
  let ?e = "example_env one_zone a_refused all_updated"
  have h1: "ipify ?e = IpText ''203.0.113.7''"
    by (simp add: example_env_def)
  have h2: "(None :: string option) \<noteq> Some ''203.0.113.7''"
    by simp
  have h3: "snd (getZoneId (cloudflare ?e) (zone example_config)) = Inr (Some ''z1'')"
    by code_simp
  have h4: "''z1'' \<noteq> []"
    by simp
  have names: "split_comma (records example_config) = [''a.example.com'', ''b.example.com'']"
    by code_simp
  have h5: "''a.example.com'' \<in> set (split_comma (records example_config))"
    by (simp add: names)
  have a: "snd (cloudflare ?e (GetRecord ''z1'' ''a.example.com'')) = NotOk"
    by code_simp
  then have h6: "snd (cloudflare ?e (GetRecord ''z1'' ''a.example.com'')) = NotOk \<or>
        snd (cloudflare ?e (GetRecord ''z1'' ''a.example.com'')) = Rejected []"
    by (rule disjI1)
  have b: "snd (lookup_task (cloudflare ?e) ''z1'' ''b.example.com'') = Inr (Some ''r2'')"
    by code_simp
  have others: "\<forall>k \<in> set (split_comma (records example_config)).
          k \<noteq> ''a.example.com'' \<longrightarrow> (\<exists>v. snd (lookup_task (cloudflare ?e) ''z1'' k) = Inr v)"
    using b by (simp add: names)
  from failed_lookup_aborts_pass [OF h1 h2 h3 h4 h5 h6] obtain err where
    t: "main_job example_config ?e None =
          \<lparr>outcome = Failed err, cache = Some ''203.0.113.7'',
           requests = [FetchIp, GetZone (zone example_config)] @
                      map (GetRecord ''z1'') (split_comma (records example_config))\<rparr>"
      "filter is_update (requests (main_job example_config ?e None)) = []"
      "(\<forall>k \<in> set (split_comma (records example_config)).
          k \<noteq> ''a.example.com'' \<longrightarrow> (\<exists>v. snd (lookup_task (cloudflare ?e) ''z1'' k) = Inr v)) \<longrightarrow>
       err = (if snd (cloudflare ?e (GetRecord ''z1'' ''a.example.com'')) = NotOk
              then FailedToFindRecord ''a.example.com'' else FetchError [])"
    by (elim exE conjE) (rule that; assumption)
  from t(3) others have "err = (if snd (cloudflare ?e (GetRecord ''z1'' ''a.example.com'')) = NotOk
              then FailedToFindRecord ''a.example.com'' else FetchError [])"
    by (rule mp)
  then have err: "err = FailedToFindRecord ''a.example.com''"
    by (simp add: a)
  from h1 h2 h3 h4 h5 a t(1) [unfolded err] t(2) show ?thesis
    by (intro conjI)
qed

text \<open>
  C4. When the request of one update fails or its success response is not JSON, the
  failure that reaches the caller is the one \<^verbatim>\<open>fetch\<close> or \<^verbatim>\<open>res.json()\<close> rejected
  with; the program builds an error with the record id only for a response without
  success status.
\<close>

theorem update_failure_names_no_record:
  "snd (cloudflare (example_env one_zone both_found (r1_answered (Rejected ''connection reset'')))
          (PatchRecord ''z1'' ''r1'' ''203.0.113.7'')) = Rejected ''connection reset'' \<and>
   snd (cloudflare (example_env one_zone both_found (r1_answered (Rejected ''connection reset'')))
          (PatchRecord ''z1'' ''r2'' ''203.0.113.7'')) = Ok (Result []) \<and>
   main_job example_config
       (example_env one_zone both_found (r1_answered (Rejected ''connection reset''))) None =
     \<lparr>outcome = Failed (FetchError ''connection reset''), cache = Some ''203.0.113.7'',
      requests = [FetchIp, GetZone ''example.com'',
                  GetRecord ''z1'' ''a.example.com'', GetRecord ''z1'' ''b.example.com'',
                  PatchRecord ''z1'' ''r2'' ''203.0.113.7'',
                  PatchRecord ''z1'' ''r1'' ''203.0.113.7'']\<rparr> \<and>
   FetchError ''connection reset'' \<noteq> FailedToUpdate ''r1'' \<and>
   message (FetchError ''connection reset'') = ''connection reset'' \<and>
   outcome (main_job example_config
       (example_env one_zone both_found (r1_answered (Ok InvalidJson))) None) = Failed JsonError"
  by code_simp

text \<open>
  C4, amended. In a pass that reaches the update step, when the update of one record
  id fails and the others succeed, all update requests are issued,
  \<open>updateDNSRecord\<close> fails with the error of that update, and the pass fails with it,
  in both versions. That error is \<open>FailedToUpdate\<close> with the record id when the
  update was answered without success status.
\<close>

theorem update_failure_isolated:
  assumes "ipify e = IpText ip" and "previousIp \<noteq> Some ip"
    and "snd (getZoneId (cloudflare e) (zone cfg)) = Inr (Some zoneId)" and "zoneId \<noteq> []"
    and "r \<in> set ids"
    and "snd (update_task (cloudflare e) zoneId ip r) = Inl err"
    and "\<forall>r' \<in> set ids. r' \<noteq> r \<longrightarrow> snd (update_task (cloudflare e) zoneId ip r') = Inr ()"
  shows "updateDNSRecord (cloudflare e) zoneId ids ip =
           (map (\<lambda>i. PatchRecord zoneId i ip) ids, Inl err) \<and>
         (snd (cloudflare e (PatchRecord zoneId r ip)) = NotOk \<longrightarrow> err = FailedToUpdate r) \<and>
         (snd (getRecordIds (cloudflare e) zoneId (split_comma (records cfg))) = Inr recordIds \<and>
          find (\<lambda>recordName. falsy (obj_get recordIds recordName)) (split_comma (records cfg))
            = None \<and>
          ids = map to_str (object_values recordIds) \<longrightarrow>
            main_job cfg e previousIp =
              \<lparr>outcome = Failed err, cache = Some ip,
               requests = [FetchIp, GetZone (zone cfg)] @
                          map (GetRecord zoneId) (split_comma (records cfg)) @
                          map (\<lambda>i. PatchRecord zoneId i ip) ids\<rparr>) \<and>
         (snd (cdu_getRecordIds (cloudflare e) zoneId (split_comma (records cfg))) = Inr looked \<and>
          ids = map to_str looked \<longrightarrow>
            cdu_main_job cfg e previousIp =
              \<lparr>outcome = Failed err, cache = Some ip,
               requests = [FetchIp, GetZone (zone cfg)] @
                          map (GetRecord zoneId) (split_comma (records cfg)) @
                          map (\<lambda>i. PatchRecord zoneId i ip) ids\<rparr>)"
proof -
  let ?cf = "cloudflare e" and ?names = "split_comma (records cfg)"
  have u: "updateDNSRecord ?cf zoneId ids ip =
             (map (\<lambda>i. PatchRecord zoneId i ip) ids, Inl err)"
    using assms(5-7) by (rule updateDNSRecord_only_failure)
  have named: "err = FailedToUpdate r" if "snd (?cf (PatchRecord zoneId r ip)) = NotOk"
    using update_task_rejects(1) [of "cloudflare e" zoneId r ip] that assms(6) by simp
  have t: "\<not> falsy (Some zoneId)" "to_str (Some zoneId) = zoneId"
    using assms(4) by simp_all
  have m: "main_job cfg e previousIp =
              \<lparr>outcome = Failed err, cache = Some ip,
               requests = [FetchIp, GetZone (zone cfg)] @ map (GetRecord zoneId) ?names @
                          map (\<lambda>i. PatchRecord zoneId i ip) ids\<rparr>"
    if "snd (getRecordIds ?cf zoneId ?names) = Inr recordIds"
      and "find (\<lambda>recordName. falsy (obj_get recordIds recordName)) ?names = None"
      and "ids = map to_str (object_values recordIds)"
  proof -
    from that(1) have g: "snd (getRecordIds ?cf (to_str (Some zoneId)) ?names) = Inr recordIds"
      by (simp only: t(2))
    from main_job_update_step [OF assms(1-3) t(1) g that(2)] u show ?thesis
      by (simp only: t(2) that(3) [symmetric]) simp
  qed
  have c: "cdu_main_job cfg e previousIp =
              \<lparr>outcome = Failed err, cache = Some ip,
               requests = [FetchIp, GetZone (zone cfg)] @ map (GetRecord zoneId) ?names @
                          map (\<lambda>i. PatchRecord zoneId i ip) ids\<rparr>"
    if "snd (cdu_getRecordIds ?cf zoneId ?names) = Inr looked" and "ids = map to_str looked"
  proof -
    from that(1) have g: "snd (cdu_getRecordIds ?cf (to_str (Some zoneId)) ?names) = Inr looked"
      by (simp only: t(2))
    from cdu_main_job_update_step [OF assms(1-3) g] u show ?thesis
      by (simp only: t(2) that(2) [symmetric]) simp
  qed
  from u named m c show ?thesis by blast
qed

theorem update_failure_isolated_witness:
  "ipify (example_env one_zone both_found (r1_answered NotOk)) = IpText ''203.0.113.7'' \<and>
   None \<noteq> Some ''203.0.113.7'' \<and>
   snd (getZoneId (cloudflare (example_env one_zone both_found (r1_answered NotOk)))
          (zone reversed_config)) = Inr (Some ''z1'') \<and>
   ''z1'' \<noteq> [] \<and>
   ''r1'' \<in> set [''r2'', ''r1''] \<and>
   snd (cloudflare (example_env one_zone both_found (r1_answered NotOk))
          (PatchRecord ''z1'' ''r1'' ''203.0.113.7'')) = NotOk \<and>
   snd (update_task (cloudflare (example_env one_zone both_found (r1_answered NotOk)))
          ''z1'' ''203.0.113.7'' ''r1'') = Inl (FailedToUpdate ''r1'') \<and>
   snd (update_task (cloudflare (example_env one_zone both_found (r1_answered NotOk)))
          ''z1'' ''203.0.113.7'' ''r2'') = Inr () \<and>
   snd (getRecordIds (cloudflare (example_env one_zone both_found (r1_answered NotOk))) ''z1''
          (split_comma (records reversed_config)))
     = Inr [(''b.example.com'', Some ''r2''), (''a.example.com'', Some ''r1'')] \<and>
   find (\<lambda>recordName.
           falsy (obj_get [(''b.example.com'', Some ''r2''), (''a.example.com'', Some ''r1'')]
                    recordName))
     (split_comma (records reversed_config)) = None \<and>
   [''r2'', ''r1'']
     = map to_str (object_values [(''b.example.com'', Some ''r2''), (''a.example.com'', Some ''r1'')]) \<and>
   snd (cdu_getRecordIds (cloudflare (example_env one_zone both_found (r1_answered NotOk))) ''z1''
          (split_comma (records reversed_config))) = Inr [Some ''r2'', Some ''r1''] \<and>
   [''r2'', ''r1''] = map to_str [Some ''r2'', Some ''r1''] \<and>
   updateDNSRecord (cloudflare (example_env one_zone both_found (r1_answered NotOk))) ''z1''
       [''r2'', ''r1''] ''203.0.113.7'' =
     (map (\<lambda>i. PatchRecord ''z1'' i ''203.0.113.7'') [''r2'', ''r1''],
      Inl (FailedToUpdate ''r1'')) \<and>
   main_job reversed_config (example_env one_zone both_found (r1_answered NotOk)) None =
     \<lparr>outcome = Failed (FailedToUpdate ''r1''), cache = Some ''203.0.113.7'',
      requests = [FetchIp, GetZone (zone reversed_config)] @
                 map (GetRecord ''z1'') (split_comma (records reversed_config)) @
                 map (\<lambda>i. PatchRecord ''z1'' i ''203.0.113.7'') [''r2'', ''r1'']\<rparr> \<and>
   cdu_main_job reversed_config (example_env one_zone both_found (r1_answered NotOk)) None =
     \<lparr>outcome = Failed (FailedToUpdate ''r1''), cache = Some ''203.0.113.7'',
      requests = [FetchIp, GetZone (zone reversed_config)] @
                 map (GetRecord ''z1'') (split_comma (records reversed_config)) @
                 map (\<lambda>i. PatchRecord ''z1'' i ''203.0.113.7'') [''r2'', ''r1'']\<rparr>"
proof -
  let ?e = "example_env one_zone both_found (r1_answered NotOk)"
  let ?m = "[(''b.example.com'', Some ''r2''), (''a.example.com'', Some ''r1'')]"
  have h1: "ipify ?e = IpText ''203.0.113.7''"
    by (simp add: example_env_def)
  have h2: "(None :: string option) \<noteq> Some ''203.0.113.7''"
    by simp
  have h3: "snd (getZoneId (cloudflare ?e) (zone reversed_config)) = Inr (Some ''z1'')"
    by code_simp
  have h4: "''z1'' \<noteq> []"
    by simp
  have h5: "''r1'' \<in> set [''r2'', ''r1'']"
    by simp
  have n: "snd (cloudflare ?e (PatchRecord ''z1'' ''r1'' ''203.0.113.7'')) = NotOk"
    by code_simp
  have h6: "snd (update_task (cloudflare ?e) ''z1'' ''203.0.113.7'' ''r1'')
              = Inl (FailedToUpdate ''r1'')"
    by code_simp
  have r2: "snd (update_task (cloudflare ?e) ''z1'' ''203.0.113.7'' ''r2'') = Inr ()"
    by code_simp
  have h7: "\<forall>r' \<in> set [''r2'', ''r1'']. r' \<noteq> ''r1'' \<longrightarrow>
              snd (update_task (cloudflare ?e) ''z1'' ''203.0.113.7'' r') = Inr ()"
    using r2 by simp
  have g: "snd (getRecordIds (cloudflare ?e) ''z1'' (split_comma (records reversed_config)))
             = Inr ?m"
    by code_simp
  have v: "find (\<lambda>recordName. falsy (obj_get ?m recordName))
             (split_comma (records reversed_config)) = None"
    by code_simp
  have i: "[''r2'', ''r1''] = map to_str (object_values ?m)"
    by code_simp
  have c: "snd (cdu_getRecordIds (cloudflare ?e) ''z1'' (split_comma (records reversed_config)))
             = Inr [Some ''r2'', Some ''r1'']"
    by code_simp
  have j: "[''r2'', ''r1''] = map to_str [Some ''r2'', Some ''r1'']"
    by simp
  note t = update_failure_isolated [OF h1 h2 h3 h4 h5 h6 h7, of ?m "[Some ''r2'', Some ''r1'']"]
  have t1: "updateDNSRecord (cloudflare ?e) ''z1'' [''r2'', ''r1''] ''203.0.113.7'' =
     (map (\<lambda>i. PatchRecord ''z1'' i ''203.0.113.7'') [''r2'', ''r1''],
      Inl (FailedToUpdate ''r1''))"
    using t by (rule conjunct1)
  have t2: "main_job reversed_config ?e None =
     \<lparr>outcome = Failed (FailedToUpdate ''r1''), cache = Some ''203.0.113.7'',
      requests = [FetchIp, GetZone (zone reversed_config)] @
                 map (GetRecord ''z1'') (split_comma (records reversed_config)) @
                 map (\<lambda>i. PatchRecord ''z1'' i ''203.0.113.7'') [''r2'', ''r1'']\<rparr>"
    using t [THEN conjunct2, THEN conjunct2, THEN conjunct1] g v i by (elim impE) (intro conjI)
  have t3: "cdu_main_job reversed_config ?e None =
     \<lparr>outcome = Failed (FailedToUpdate ''r1''), cache = Some ''203.0.113.7'',
      requests = [FetchIp, GetZone (zone reversed_config)] @
                 map (GetRecord ''z1'') (split_comma (records reversed_config)) @
                 map (\<lambda>i. PatchRecord ''z1'' i ''203.0.113.7'') [''r2'', ''r1'']\<rparr>"
    using t [THEN conjunct2, THEN conjunct2, THEN conjunct2] c j by (elim impE) (intro conjI)
  from h1 h2 h3 h4 h5 n h6 r2 g v i c j t1 t2 t3 show ?thesis
    by (intro conjI)
qed

text \<open>
  C10. The two versions do not issue the same requests on every input. When a
  configured record is unknown to the provider, \<^verbatim>\<open>part_000\<close> stops after the lookups
  and \<^verbatim>\<open>cdu.ts\<close> goes on to the updates; when a name is configured twice,
  \<^verbatim>\<open>part_000\<close> updates its record once and \<^verbatim>\<open>cdu.ts\<close> twice.
\<close>

theorem versions_differ:
  "requests (main_job example_config (example_env one_zone only_a_found all_updated) None) =
     [FetchIp, GetZone ''example.com'',
      GetRecord ''z1'' ''a.example.com'', GetRecord ''z1'' ''b.example.com''] \<and>
   requests (cdu_main_job example_config (example_env one_zone only_a_found all_updated) None) =
     [FetchIp, GetZone ''example.com'',
      GetRecord ''z1'' ''a.example.com'', GetRecord ''z1'' ''b.example.com'',
      PatchRecord ''z1'' ''r1'' ''203.0.113.7'',
      PatchRecord ''z1'' ''undefined'' ''203.0.113.7''] \<and>
   requests (main_job twice_config (example_env one_zone both_found all_updated) None) =
     [FetchIp, GetZone ''example.com'',
      GetRecord ''z1'' ''a.example.com'', GetRecord ''z1'' ''a.example.com'',
      PatchRecord ''z1'' ''r1'' ''203.0.113.7''] \<and>
   requests (cdu_main_job twice_config (example_env one_zone both_found all_updated) None) =
     [FetchIp, GetZone ''example.com'',
      GetRecord ''z1'' ''a.example.com'', GetRecord ''z1'' ''a.example.com'',
      PatchRecord ''z1'' ''r1'' ''203.0.113.7'', PatchRecord ''z1'' ''r1'' ''203.0.113.7'']"
  by code_simp

text \<open>
  C10, amended. Take a provider whose answer to a request is determined by the request
  alone (the providers of this model). When the zone lookup, if it succeeds, yields a
  non-empty zone id, and every record lookup under that zone id that succeeds yields a
  non-empty record id, the two versions leave the same cache, issue the same requests
  before the updates in the same order, and issue the same set of requests; for
  pairwise distinct configured names they issue the same requests up to the order of
  the updates. They end alike, or both fail (in the update step, where the error
  reported may differ).
\<close>

theorem versions_agree_on_resolved_ids:
  assumes "\<forall>zoneId. snd (getZoneId (cloudflare e) (zone cfg)) = Inr zoneId \<longrightarrow> \<not> falsy zoneId"
    and "\<forall>zoneId recordName v.
           snd (getZoneId (cloudflare e) (zone cfg)) = Inr zoneId \<longrightarrow>
           recordName \<in> set (split_comma (records cfg)) \<longrightarrow>
           snd (lookup_task (cloudflare e) (to_str zoneId) recordName) = Inr v \<longrightarrow> \<not> falsy v"
  shows "cache (main_job cfg e previousIp) = cache (cdu_main_job cfg e previousIp) \<and>
         filter (\<lambda>q. \<not> is_update q) (requests (main_job cfg e previousIp)) =
           filter (\<lambda>q. \<not> is_update q) (requests (cdu_main_job cfg e previousIp)) \<and>
         set (requests (main_job cfg e previousIp)) =
           set (requests (cdu_main_job cfg e previousIp)) \<and>
         (distinct (split_comma (records cfg)) \<longrightarrow>
            mset (requests (main_job cfg e previousIp)) =
              mset (requests (cdu_main_job cfg e previousIp))) \<and>
         (outcome (main_job cfg e previousIp) = outcome (cdu_main_job cfg e previousIp) \<or>
          (\<exists>err err'. outcome (main_job cfg e previousIp) = Failed err \<and>
                      outcome (cdu_main_job cfg e previousIp) = Failed err'))"
proof -
  let ?cf = "cloudflare e" and ?names = "split_comma (records cfg)"
  let ?goal = ?thesis
  have same: ?goal if "main_job cfg e previousIp = cdu_main_job cfg e previousIp"
    using that by simp
  show ?thesis
  proof (cases "ipify e")
    case (IpRejected reason)
    then show ?thesis
      by (intro same) (simp add: main_job_ip_rejected cdu_main_job_ip_rejected)
  next
    case (IpText ip)
    show ?thesis
    proof (cases "previousIp = Some ip")
      case True
      with IpText show ?thesis
        by (intro same) (simp add: main_job_no_change cdu_main_job_no_change)
    next
      case changed: False
      show ?thesis
      proof (cases "snd (getZoneId ?cf (zone cfg))")
        case (Inl err)
        with IpText changed show ?thesis
          by (intro same) (simp add: main_job_zone_error cdu_main_job_zone_error)
      next
        case (Inr zoneId)
        with assms(1) have truthy: "\<not> falsy zoneId"
          by blast
        show ?thesis
        proof (cases "snd (getRecordIds ?cf (to_str zoneId) ?names)")
          case g: (Inl err)
          then have "snd (cdu_getRecordIds ?cf (to_str zoneId) ?names) = Inl err"
            by (simp only: getRecordIds_Inl_iff cdu_getRecordIds_Inl_iff)
          with IpText changed Inr truthy g show ?thesis
            by (intro same) (simp add: main_job_lookup_error cdu_main_job_lookup_error)
        next
          case g: (Inr m)
          obtain ids where c: "snd (cdu_getRecordIds ?cf (to_str zoneId) ?names) = Inr ids"
          proof (cases "snd (cdu_getRecordIds ?cf (to_str zoneId) ?names)")
            case (Inl err)
            then have "snd (getRecordIds ?cf (to_str zoneId) ?names) = Inl err"
              by (simp only: getRecordIds_Inl_iff cdu_getRecordIds_Inl_iff)
            with g show ?thesis by simp
          next
            case (Inr ids)
            then show ?thesis by (rule that)
          qed
          have "\<not> falsy (obj_get m n)" if "n \<in> set ?names" for n
            using assms(2) Inr that getRecordIds_obj_get [OF g that] by blast
          then have valid: "find (\<lambda>n. falsy (obj_get m n)) ?names = None"
            by (simp add: find_None_iff)
          let ?pre = "[FetchIp, GetZone (zone cfg)] @ map (GetRecord (to_str zoneId)) ?names"
          let ?out = "\<lambda>l. case snd (updateDNSRecord ?cf (to_str zoneId) l ip) of
                           Inl err \<Rightarrow> Failed err | Inr _ \<Rightarrow> Updated"
          let ?ups = "\<lambda>l. map (\<lambda>i. PatchRecord (to_str zoneId) i ip) l"
          let ?a = "map to_str (object_values m)" and ?b = "map to_str ids"
          have mj: "main_job cfg e previousIp =
                      \<lparr>outcome = ?out ?a, cache = Some ip, requests = ?pre @ ?ups ?a\<rparr>"
            using main_job_update_step [OF IpText changed Inr truthy g valid] by simp
          have cj: "cdu_main_job cfg e previousIp =
                      \<lparr>outcome = ?out ?b, cache = Some ip, requests = ?pre @ ?ups ?b\<rparr>"
            using cdu_main_job_update_step [OF IpText changed Inr c] by simp
          have s: "set ?a = set ?b"
            using resolved_ids_same_set(2) [OF g c] by simp
          have ms: "mset ?a = mset ?b" if "distinct ?names"
            using resolved_ids_same_set(3) [OF g c that] by simp
          have 1: "cache (main_job cfg e previousIp) = cache (cdu_main_job cfg e previousIp)"
            by (simp add: mj cj)
          have 2: "filter (\<lambda>q. \<not> is_update q) (requests (main_job cfg e previousIp)) =
                   filter (\<lambda>q. \<not> is_update q) (requests (cdu_main_job cfg e previousIp))"
            by (simp add: mj cj filter_map comp_def)
          have 3: "set (requests (main_job cfg e previousIp)) =
                   set (requests (cdu_main_job cfg e previousIp))"
          proof -
            have "set (?ups ?a) = set (?ups ?b)"
              using s by (simp only: set_map)
            moreover have "requests (main_job cfg e previousIp) = ?pre @ ?ups ?a"
              by (simp add: mj)
            moreover have "requests (cdu_main_job cfg e previousIp) = ?pre @ ?ups ?b"
              by (simp add: cj)
            ultimately show ?thesis
              by (simp only: set_append)
          qed
          have 4: "mset (requests (main_job cfg e previousIp)) =
                   mset (requests (cdu_main_job cfg e previousIp))" if "distinct ?names"
          proof -
            have "mset (?ups ?a) = mset (?ups ?b)"
              using ms [OF that] by (simp only: mset_map)
            moreover have "requests (main_job cfg e previousIp) = ?pre @ ?ups ?a"
              by (simp add: mj)
            moreover have "requests (cdu_main_job cfg e previousIp) = ?pre @ ?ups ?b"
              by (simp add: cj)
            ultimately show ?thesis
              by (simp only: mset_append)
          qed
          have 5: "outcome (main_job cfg e previousIp) = outcome (cdu_main_job cfg e previousIp) \<or>
                   (\<exists>err err'. outcome (main_job cfg e previousIp) = Failed err \<and>
                      outcome (cdu_main_job cfg e previousIp) = Failed err')"
            using update_outcome_same_set [OF s, of ?cf "to_str zoneId" ip] by (simp add: mj cj)
          from 1 2 3 4 5 show ?thesis
            by (intro conjI impI)
        qed
      qed
    qed
  qed
qed

theorem versions_agree_on_resolved_ids_witness:
  "snd (getZoneId (known_zone_only (example_provider one_zone both_found all_updated))
          (zone example_config)) = Inr (Some ''z1'') \<and>
   \<not> falsy (Some ''z1'') \<and>
   snd (lookup_task (known_zone_only (example_provider one_zone both_found all_updated))
          (to_str (Some ''z1'')) ''a.example.com'') = Inr (Some ''r1'') \<and>
   snd (lookup_task (known_zone_only (example_provider one_zone both_found all_updated))
          (to_str (Some ''z1'')) ''b.example.com'') = Inr (Some ''r2'') \<and>
   \<not> falsy (Some ''r1'') \<and> \<not> falsy (Some ''r2'') \<and>
   distinct (split_comma (records example_config)) \<and>
   cache (main_job example_config
            \<lparr>ipify = IpText ''203.0.113.7'',
             cloudflare = known_zone_only (example_provider one_zone both_found all_updated)\<rparr>
            None) =
     cache (cdu_main_job example_config
            \<lparr>ipify = IpText ''203.0.113.7'',
             cloudflare = known_zone_only (example_provider one_zone both_found all_updated)\<rparr>
            None) \<and>
   set (requests (main_job example_config
            \<lparr>ipify = IpText ''203.0.113.7'',
             cloudflare = known_zone_only (example_provider one_zone both_found all_updated)\<rparr>
            None)) =
     set (requests (cdu_main_job example_config
            \<lparr>ipify = IpText ''203.0.113.7'',
             cloudflare = known_zone_only (example_provider one_zone both_found all_updated)\<rparr>
            None)) \<and>
   mset (requests (main_job example_config
            \<lparr>ipify = IpText ''203.0.113.7'',
             cloudflare = known_zone_only (example_provider one_zone both_found all_updated)\<rparr>
            None)) =
     mset (requests (cdu_main_job example_config
            \<lparr>ipify = IpText ''203.0.113.7'',
             cloudflare = known_zone_only (example_provider one_zone both_found all_updated)\<rparr>
            None)) \<and>
   outcome (main_job example_config
            \<lparr>ipify = IpText ''203.0.113.7'',
             cloudflare = known_zone_only (example_provider one_zone both_found all_updated)\<rparr>
            None) = Updated \<and>
   outcome (cdu_main_job example_config
            \<lparr>ipify = IpText ''203.0.113.7'',
             cloudflare = known_zone_only (example_provider one_zone both_found all_updated)\<rparr>
            None) = Updated"
proof -
  let ?cf = "known_zone_only (example_provider one_zone both_found all_updated)"
  let ?e = "\<lparr>ipify = IpText ''203.0.113.7'', cloudflare = ?cf\<rparr>"
  have z: "snd (getZoneId ?cf (zone example_config)) = Inr (Some ''z1'')"
    by code_simp
  have nf: "\<not> falsy (Some ''z1'')"
    by simp
  have h1: "\<forall>zoneId. snd (getZoneId (cloudflare ?e) (zone example_config)) = Inr zoneId
              \<longrightarrow> \<not> falsy zoneId"
    using z by simp
  have l: "snd (lookup_task ?cf ''z1'' recordName) =
             Inr (if recordName = ''a.example.com'' then Some ''r1'' else Some ''r2'')"
    for recordName
    by (simp add: lookup_task_def known_zone_only_def example_provider_def both_found_def)
  have la: "snd (lookup_task ?cf (to_str (Some ''z1'')) ''a.example.com'') = Inr (Some ''r1'')"
    by (simp add: l)
  have lb: "snd (lookup_task ?cf (to_str (Some ''z1'')) ''b.example.com'') = Inr (Some ''r2'')"
    by (simp add: l)
  have ids: "\<not> falsy (Some ''r1'')" "\<not> falsy (Some ''r2'')"
    by simp_all
  have h2: "\<forall>zoneId recordName v.
              snd (getZoneId (cloudflare ?e) (zone example_config)) = Inr zoneId \<longrightarrow>
              recordName \<in> set (split_comma (records example_config)) \<longrightarrow>
              snd (lookup_task (cloudflare ?e) (to_str zoneId) recordName) = Inr v \<longrightarrow>
              \<not> falsy v"
    using z by (auto simp: l)
  have d: "distinct (split_comma (records example_config))"
    by code_simp
  have om: "outcome (main_job example_config ?e None) = Updated"
    by code_simp
  have oc: "outcome (cdu_main_job example_config ?e None) = Updated"
    by code_simp
  note t = versions_agree_on_resolved_ids [OF h1 h2, of None]
  have t1: "cache (main_job example_config ?e None) = cache (cdu_main_job example_config ?e None)"
    using t by (elim conjE)
  have t3: "set (requests (main_job example_config ?e None)) =
            set (requests (cdu_main_job example_config ?e None))"
    using t by (elim conjE)
  have t4: "mset (requests (main_job example_config ?e None)) =
            mset (requests (cdu_main_job example_config ?e None))"
    using t d by (elim conjE impE)
  from z nf la lb ids d t1 t3 t4 om oc show ?thesis
    by (intro conjI)
qed

end
